theory Spec2Isabelle
  imports Complex_Main
begin

section \<open>Python values and the operations the ETL code applies to them\<close>

text \<open>
  The pipeline of \<^verbatim>\<open>pages/4_SQL_Analytics.py\<close> works on decoded JSON. A decoded payload is
  a value of \<open>json\<close>; Python's \<^verbatim>\<open>None\<close> is \<open>JNull\<close> (a missing key read with
  \<^verbatim>\<open>.get\<close> and a JSON null are the same value to the code). A JSON number is an
  \<^verbatim>\<open>int\<close> or a \<^verbatim>\<open>float\<close>. A float is a rational (the doubles are among them), an
  infinity or NaN, which Python's decoder accepts; \<open>JFloat f s\<close> is the float \<open>f\<close> together
  with the text \<^verbatim>\<open>repr\<close> prints for it, as in \<open>JFloat (Finite (3 / 2)) ''1.5''\<close>, and only
  \<^verbatim>\<open>str\<close> and \<^verbatim>\<open>repr\<close> look at that text. Strings are ASCII, and a dict is an
  association list in insertion order with distinct keys.
\<close>

datatype pyfloat = Finite rat | PosInf | NegInf | NaN

datatype json =
    JNull
  | JBool bool
  | JInt int
  | JFloat pyfloat string
  | JStr string
  | JList "json list"
  | JDict "(string \<times> json) list"

datatype exn =
    TypeError
  | ValueError
  | AttributeError
  | KeyError
  | IndexError
  | OverflowError
  | RuntimeError
  | RequestException
  | IntegrityError

definition bindE :: "exn + 'a \<Rightarrow> ('a \<Rightarrow> exn + 'b) \<Rightarrow> exn + 'b" where
  "bindE m f = (case m of Inl e \<Rightarrow> Inl e | Inr a \<Rightarrow> f a)"

text \<open>Truth value of a Python object, and \<^verbatim>\<open>a or b\<close>.\<close>

fun truthy :: "json \<Rightarrow> bool" where
  "truthy JNull = False"
| "truthy (JBool b) = b"
| "truthy (JInt n) = (n \<noteq> 0)"
| "truthy (JFloat f s) = (f \<noteq> Finite 0)"
| "truthy (JStr s) = (s \<noteq> [])"
| "truthy (JList xs) = (xs \<noteq> [])"
| "truthy (JDict kvs) = (kvs \<noteq> [])"

definition py_or :: "json \<Rightarrow> json \<Rightarrow> json" where
  "py_or a b = (if truthy a then a else b)"

text \<open>\<^verbatim>\<open>d.get(k)\<close> and \<^verbatim>\<open>d.get(k, default)\<close>: only a dict has the method.\<close>

fun py_get_default :: "json \<Rightarrow> string \<Rightarrow> json \<Rightarrow> exn + json" where
  "py_get_default (JDict kvs) k d = Inr (case map_of kvs k of Some v \<Rightarrow> v | None \<Rightarrow> d)"
| "py_get_default _ k d = Inl AttributeError"

definition py_get :: "json \<Rightarrow> string \<Rightarrow> exn + json" where
  "py_get v k = py_get_default v k JNull"

text \<open>\<^verbatim>\<open>isinstance(v, dict)\<close>, \<^verbatim>\<open>isinstance(v, list)\<close>, \<^verbatim>\<open>isinstance(v, str)\<close>.\<close>

fun is_dict :: "json \<Rightarrow> bool" where
  "is_dict (JDict kvs) = True"
| "is_dict _ = False"

fun is_list :: "json \<Rightarrow> bool" where
  "is_list (JList xs) = True"
| "is_list _ = False"

fun is_str :: "json \<Rightarrow> bool" where
  "is_str (JStr s) = True"
| "is_str _ = False"

subsection \<open>Strings\<close>

definition is_space :: "char \<Rightarrow> bool" where
  "is_space c = (c \<in> set [CHR 0x20, CHR 0x09, CHR 0x0A, CHR 0x0B, CHR 0x0C, CHR 0x0D,
                             CHR 0x1C, CHR 0x1D, CHR 0x1E, CHR 0x1F])"

definition py_strip :: "string \<Rightarrow> string" where
  "py_strip s = rev (dropWhile is_space (rev (dropWhile is_space s)))"

definition is_digit :: "char \<Rightarrow> bool" where
  "is_digit c = (48 \<le> (of_char c :: nat) \<and> (of_char c :: nat) \<le> 57)"

definition digit_val :: "char \<Rightarrow> int" where
  "digit_val c = int (of_char c) - 48"

text \<open>\<^verbatim>\<open>s.isdigit()\<close>: non-empty and every character a digit.\<close>

definition py_isdigit :: "string \<Rightarrow> bool" where
  "py_isdigit s = (s \<noteq> [] \<and> list_all is_digit s)"

text \<open>
  \<^verbatim>\<open>int(s)\<close> on a string: surrounding whitespace is dropped, one sign is allowed, then
  decimal digits, where single underscores may stand between digits.
\<close>

fun digits_val :: "int \<Rightarrow> string \<Rightarrow> int option" where
  "digits_val acc [] = Some acc"
| "digits_val acc (c # cs) =
     (if is_digit c then digits_val (acc * 10 + digit_val c) cs
      else if c = CHR ''_'' then
        (case cs of
           [] \<Rightarrow> None
         | d # ds \<Rightarrow> if is_digit d then digits_val (acc * 10 + digit_val d) ds else None)
      else None)"

definition unsigned_val :: "string \<Rightarrow> int option" where
  "unsigned_val s =
     (case s of
        [] \<Rightarrow> None
      | c # cs \<Rightarrow> if is_digit c then digits_val (digit_val c) cs else None)"

definition int_of_str :: "string \<Rightarrow> int option" where
  "int_of_str s =
     (case py_strip s of
        [] \<Rightarrow> None
      | c # cs \<Rightarrow>
          if c = CHR ''-'' then map_option uminus (unsigned_val cs)
          else if c = CHR ''+'' then unsigned_val cs
          else unsigned_val (c # cs))"

text \<open>
  \<^verbatim>\<open>int(v)\<close>: a bool is an int; a float is cut towards zero, and raises when it is an
  infinity or NaN; a string is parsed; None and containers are a TypeError.
\<close>

definition py_trunc :: "rat \<Rightarrow> int" where
  "py_trunc q = (if 0 \<le> q then \<lfloor>q\<rfloor> else \<lceil>q\<rceil>)"

fun py_int :: "json \<Rightarrow> exn + int" where
  "py_int (JInt n) = Inr n"
| "py_int (JBool b) = Inr (if b then 1 else 0)"
| "py_int (JFloat f s) =
     (case f of
        Finite q \<Rightarrow> Inr (py_trunc q)
      | NaN \<Rightarrow> Inl ValueError
      | _ \<Rightarrow> Inl OverflowError)"
| "py_int (JStr s) = (case int_of_str s of Some n \<Rightarrow> Inr n | None \<Rightarrow> Inl ValueError)"
| "py_int _ = Inl TypeError"

subsection \<open>Text of a value\<close>

text \<open>
  \<^verbatim>\<open>str(v)\<close>. A string is itself; every other value is printed as \<^verbatim>\<open>repr\<close> prints it:
  a string inside a list or dict is quoted (with double quotes when it holds a single quote
  and no double quote) and its backslashes, quotes and control characters are escaped.
\<close>

definition digit_char :: "nat \<Rightarrow> char" where
  "digit_char d = char_of (48 + d)"

fun str_of_nat :: "nat \<Rightarrow> string" where
  "str_of_nat n = (if n < 10 then [digit_char n] else str_of_nat (n div 10) @ [digit_char (n mod 10)])"

declare str_of_nat.simps [simp del]

definition str_of_int :: "int \<Rightarrow> string" where
  "str_of_int i = (if i < 0 then CHR ''-'' # str_of_nat (nat (- i)) else str_of_nat (nat i))"

definition hex_char :: "nat \<Rightarrow> char" where
  "hex_char d = (if d < 10 then char_of (48 + d) else char_of (87 + d))"

definition repr_char :: "char \<Rightarrow> char \<Rightarrow> string" where
  "repr_char q c =
     (if c = CHR 0x5C then [CHR 0x5C, CHR 0x5C]
      else if c = q then [CHR 0x5C, q]
      else if c = CHR 0x09 then [CHR 0x5C, CHR ''t'']
      else if c = CHR 0x0A then [CHR 0x5C, CHR ''n'']
      else if c = CHR 0x0D then [CHR 0x5C, CHR ''r'']
      else if (of_char c :: nat) < 32 \<or> (of_char c :: nat) = 127
        then [CHR 0x5C, CHR ''x'', hex_char ((of_char c) div 16), hex_char ((of_char c) mod 16)]
      else [c])"

definition repr_str :: "string \<Rightarrow> string" where
  "repr_str s =
     (let q = (if CHR 0x27 \<in> set s \<and> CHR 0x22 \<notin> set s then CHR 0x22 else CHR 0x27)
      in q # concat (map (repr_char q) s) @ [q])"

fun join :: "string \<Rightarrow> string list \<Rightarrow> string" where
  "join sep [] = []"
| "join sep [x] = x"
| "join sep (x # y # ys) = x @ sep @ join sep (y # ys)"

fun py_repr :: "json \<Rightarrow> string" where
  "py_repr JNull = ''None''"
| "py_repr (JBool b) = (if b then ''True'' else ''False'')"
| "py_repr (JInt n) = str_of_int n"
| "py_repr (JFloat f s) = s"
| "py_repr (JStr s) = repr_str s"
| "py_repr (JList xs) = ''['' @ join '', '' (map py_repr xs) @ '']''"
| "py_repr (JDict kvs) =
     ''{'' @ join '', '' (map (\<lambda>kv. repr_str (fst kv) @ '': '' @ py_repr (snd kv)) kvs) @ ''}''"

fun py_str :: "json \<Rightarrow> string" where
  "py_str (JStr s) = s"
| "py_str v = py_repr v"

section \<open>The world the pipeline runs in\<close>

text \<open>
  What lies outside the repository is a parameter of the model. \<open>server\<close> is the remote
  API: the outcome of the \<open>k\<close>-th HTTP attempt of the run, for a URL and its query
  parameters, is either a connection failure (\<^verbatim>\<open>requests.get\<close> raises a
  \<^verbatim>\<open>RequestException\<close>) or a response with a status code and a body, where the body is
  \<open>None\<close> when it does not decode as JSON. \<open>strftime_gmtime x\<close> stands for
  \<^verbatim>\<open>time.strftime("%Y-%m-%d", time.gmtime(x))\<close>, which raises outside the range the
  platform supports. \<open>float_of_str\<close> is \<^verbatim>\<open>float\<close> on a string, \<open>None\<close> when it
  raises. The two environment settings are read once when the module is imported.

  The Live Matches page looks closer at a response, so its requests are answered by
  \<open>requests_get\<close>: the \<open>k\<close>-th request of the page for a URL either raises (a
  \<^verbatim>\<open>RequestException\<close> or something else, with the text of the exception) or gives a
  response, of which the page reads the status code, the text (\<^verbatim>\<open>response.content\<close> is
  empty exactly when the text is), the decoded body (or the text of the \<^verbatim>\<open>ValueError\<close>
  that \<^verbatim>\<open>response.json()\<close> raises) and the text of the \<^verbatim>\<open>HTTPError\<close> that
  \<^verbatim>\<open>raise_for_status\<close> raises when the status is an error.
\<close>

datatype http_outcome = ConnError | Response nat "json option"

record response =
  r_status_code :: nat
  r_text :: string
  r_json :: "string + json"
  r_http_error :: string

datatype get_outcome = Request_exception string | Other_exception string | Got response

record env =
  RAPIDAPI_KEY :: "string option"
  RAPIDAPI_HOST :: "string option"
  MAX_CALLS :: int
  server :: "nat \<Rightarrow> string \<Rightarrow> json \<Rightarrow> http_outcome"
  strftime_gmtime :: "int \<Rightarrow> exn + string"
  float_of_str :: "string \<Rightarrow> pyfloat option"
  requests_get :: "nat \<Rightarrow> string \<Rightarrow> get_outcome"

subsection \<open>Small helpers\<close>

text \<open>\<^verbatim>\<open>_to_int(x, default)\<close>, \<^verbatim>\<open>_short(text, n)\<close> and \<^verbatim>\<open>_to_date(value)\<close>.\<close>

definition to_int :: "json \<Rightarrow> int option \<Rightarrow> int option" where
  "to_int x dflt =
     (if x = JNull \<or> x = JStr [] then dflt
      else (case py_int x of Inr n \<Rightarrow> Some n | Inl e \<Rightarrow> dflt))"

definition short :: "json \<Rightarrow> nat \<Rightarrow> json" where
  "short text n = (if text = JNull then JNull else JStr (take n (py_str text)))"

definition epoch_seconds :: "int \<Rightarrow> int" where
  "epoch_seconds x = (if x > 10000000000 then x div 1000 else x)"

text \<open>\<^verbatim>\<open>isinstance(value, (int, float))\<close>; a bool is an int.\<close>

fun is_int_or_float :: "json \<Rightarrow> bool" where
  "is_int_or_float (JInt n) = True"
| "is_int_or_float (JBool b) = True"
| "is_int_or_float (JFloat f s) = True"
| "is_int_or_float _ = False"

text \<open>The statements inside \<^verbatim>\<open>try:\<close>; \<open>Inr None\<close> is falling out of the block.\<close>

definition to_date_try :: "env \<Rightarrow> json \<Rightarrow> exn + string option" where
  "to_date_try E v =
     (if is_int_or_float v then
        bindE (py_int v) (\<lambda>x.
        bindE (strftime_gmtime E (epoch_seconds x)) (\<lambda>d. Inr (Some d)))
      else
          (let s = py_str v
           in if length s \<ge> 10 \<and> s ! 4 = CHR ''-'' \<and> s ! 7 = CHR ''-'' then Inr (Some (take 10 s))
              else if py_isdigit s then
                (case int_of_str s of
                   None \<Rightarrow> Inl ValueError
                 | Some x \<Rightarrow> bindE (strftime_gmtime E (epoch_seconds x)) (\<lambda>d. Inr (Some d)))
              else Inr None))"

definition to_date :: "env \<Rightarrow> json \<Rightarrow> string option" where
  "to_date E v =
     (if v = JNull then None
      else (case to_date_try E v of Inl e \<Rightarrow> None | Inr r \<Rightarrow> r))"

subsection \<open>A calendar for examples\<close>

text \<open>
  One instance of \<open>strftime_gmtime\<close>: the proleptic Gregorian date of a Unix time between
  1970 and 9999, and \<^verbatim>\<open>OverflowError\<close> outside.
\<close>

definition civil_from_days :: "int \<Rightarrow> int \<times> int \<times> int" where
  "civil_from_days days =
     (let z = days + 719468;
          era = z div 146097;
          doe = z - era * 146097;
          yoe = (doe - doe div 1460 + doe div 36524 - doe div 146096) div 365;
          doy = doe - (365 * yoe + yoe div 4 - yoe div 100);
          mp = (5 * doy + 2) div 153;
          d = doy - (153 * mp + 2) div 5 + 1;
          m = (if mp < 10 then mp + 3 else mp - 9);
          y = yoe + era * 400 + (if m \<le> 2 then 1 else 0)
      in (y, m, d))"

definition pad :: "nat \<Rightarrow> string \<Rightarrow> string" where
  "pad n s = replicate (n - length s) CHR ''0'' @ s"

definition utc_date :: "int \<Rightarrow> exn + string" where
  "utc_date x =
     (if 0 \<le> x \<and> x < 253402300800 then
        (case civil_from_days (x div 86400) of
           (y, m, d) \<Rightarrow>
             Inr (pad 4 (str_of_int y) @ ''-'' @ pad 2 (str_of_int m) @ ''-'' @ pad 2 (str_of_int d)))
      else Inl OverflowError)"

subsection \<open>What the specification calls a calendar date\<close>

text \<open>
  A string of the form YYYY-MM-DD: four digits, a dash, two digits, a dash, two digits.
  \<open>decimal_value\<close> is the number an all-digit string denotes.
\<close>

definition is_ymd :: "string \<Rightarrow> bool" where
  "is_ymd s =
     (length s = 10 \<and> list_all is_digit (take 4 s) \<and> s ! 4 = CHR ''-'' \<and>
      list_all is_digit (take 2 (drop 5 s)) \<and> s ! 7 = CHR ''-'' \<and>
      list_all is_digit (drop 8 s))"

definition decimal_value :: "string \<Rightarrow> int" where
  "decimal_value s = foldl (\<lambda>a c. a * 10 + digit_val c) 0 s"

definition example_env :: env where
  "example_env =
     \<lparr>RAPIDAPI_KEY = Some ''key'', RAPIDAPI_HOST = Some ''host'', MAX_CALLS = 8000,
      server = (\<lambda>k url params. ConnError),
      strftime_gmtime = utc_date,
      float_of_str = (\<lambda>s. None),
      requests_get = (\<lambda>k url. Request_exception ''connection refused'')\<rparr>"

section \<open>The relational store and the run state\<close>

text \<open>
  One record per table of \<^verbatim>\<open>init_schema\<close>, one field per column, the column's name
  after a prefix for its table (\<open>t_\<close>, \<open>p_\<close>, \<open>s_\<close>, \<open>v_\<close>, \<open>m_\<close>, \<open>bat_\<close>,
  \<open>bowl_\<close>, \<open>fld_\<close>). A column holds the
  Python value the statement passes for it; integer keys and the values the code has
  already converted are typed. The store checks what the schema declares: primary and
  unique keys, \<^verbatim>\<open>AUTO_INCREMENT\<close> and foreign keys. Column lengths and MySQL's
  conversion of values are not modelled, and neither are transactions: the state is what
  the connection sees.
\<close>

record team_row =
  t_team_id :: int
  t_name :: json
  t_short_name :: json
  t_country :: json

record player_row =
  p_player_id :: int
  p_name :: json
  p_role :: json
  p_bat_style :: json
  p_bowl_style :: json
  p_team_id :: int
  p_country :: json

record series_row =
  s_series_id :: int
  s_name :: json
  s_host_country :: json
  s_match_type :: json
  s_start_date :: "string option"
  s_end_date :: "string option"
  s_total_matches :: json

record venue_row =
  v_venue_id :: int
  v_name :: json
  v_city :: json
  v_country :: json
  v_capacity :: "int option"

record match_row =
  m_match_id :: int
  m_series_id :: "int option"
  m_team1_id :: "int option"
  m_team2_id :: "int option"
  m_match_date :: "string option"
  m_venue_id :: "int option"
  m_winner_id :: "int option"
  m_win_margin :: json
  m_victory_type :: json
  m_toss_winner_id :: "int option"
  m_toss_decision :: json
  m_match_format :: json
  m_description :: json

record batting_row =
  bat_id :: int
  bat_match_id :: int
  bat_player_id :: int
  bat_team_id :: "int option"
  bat_runs :: int
  bat_balls :: int
  bat_fours :: int
  bat_sixes :: int
  bat_strike_rate :: "pyfloat option"
  bat_innings_no :: int
  bat_batting_pos :: "int option"
  bat_is_out :: "int option"

record bowling_row =
  bowl_id :: int
  bowl_match_id :: int
  bowl_player_id :: int
  bowl_team_id :: "int option"
  bowl_overs :: "pyfloat option"
  bowl_maidens :: int
  bowl_runs :: int
  bowl_wickets :: int
  bowl_economy :: "pyfloat option"
  bowl_innings_no :: int

record fielding_row =
  fld_id :: int
  fld_match_id :: int
  fld_player_id :: int
  fld_catches :: int
  fld_stumpings :: int

text \<open>What the code prints, by message and the values it interpolates.\<close>

datatype log =
    Invalid_JSON string
  | API_failed int string
  | Retrying rat
  | Mcenter_failed int
  | Skipping_teams
  | Skipping_players int

text \<open>
  The state of a run: the tables with their \<^verbatim>\<open>AUTO_INCREMENT\<close> counters, the module
  global \<^verbatim>\<open>API_CALLS\<close>, the number of HTTP attempts made so far, the trace kept in the
  session state, the console, and the pauses taken by \<^verbatim>\<open>time.sleep\<close>.
\<close>

record world =
  teams :: "team_row list"
  players :: "player_row list"
  series :: "series_row list"
  venues :: "venue_row list"
  venues_auto :: int
  matches :: "match_row list"
  batting_stats :: "batting_row list"
  batting_auto :: int
  bowling_stats :: "bowling_row list"
  bowling_auto :: int
  fielding_stats :: "fielding_row list"
  fielding_auto :: int
  API_CALLS :: int
  http_attempts :: nat
  api_trace :: "(int \<times> string) list"
  console :: "log list"
  slept :: "rat list"

definition empty_world :: world where
  "empty_world =
     \<lparr>teams = [], players = [], series = [], venues = [], venues_auto = 1, matches = [],
      batting_stats = [], batting_auto = 1, bowling_stats = [], bowling_auto = 1,
      fielding_stats = [], fielding_auto = 1,
      API_CALLS = 0, http_attempts = 0, api_trace = [], console = [], slept = []\<rparr>"

section \<open>The HTTP fetch layer\<close>

text \<open>
  One pass through the \<^verbatim>\<open>try\<close> block of \<^verbatim>\<open>api_get\<close>. \<^verbatim>\<open>requests.get\<close> may raise;
  \<^verbatim>\<open>API_CALLS\<close> is counted and the trace extended only once a response is there;
  \<^verbatim>\<open>raise_for_status\<close> raises for a status from 400 to 599; a body that is not JSON is
  reported and gives None. \<open>Inl RequestException\<close> is the exception the \<^verbatim>\<open>except\<close>
  clause catches.
\<close>

definition api_attempt :: "env \<Rightarrow> string \<Rightarrow> json \<Rightarrow> world \<Rightarrow> (exn + json) \<times> world" where
  "api_attempt E url params w =
     (case server E (http_attempts w) url params of
        ConnError \<Rightarrow> (Inl RequestException, w\<lparr>http_attempts := Suc (http_attempts w)\<rparr>)
      | Response status body \<Rightarrow>
          (let w1 = w\<lparr>http_attempts := Suc (http_attempts w),
                      API_CALLS := API_CALLS w + 1,
                      api_trace := api_trace w @ [(API_CALLS w + 1, url)]\<rparr>
           in if 400 \<le> status \<and> status < 600 then (Inl RequestException, w1)
              else (case body of
                      Some j \<Rightarrow> (Inr j, w1)
                    | None \<Rightarrow> (Inr JNull, w1\<lparr>console := console w1 @ [Invalid_JSON url]\<rparr>))))"

text \<open>The \<^verbatim>\<open>while True\<close> loop with its counter \<^verbatim>\<open>attempt\<close>.\<close>

function api_get_loop ::
  "env \<Rightarrow> string \<Rightarrow> json \<Rightarrow> int \<Rightarrow> rat \<Rightarrow> int \<Rightarrow> world \<Rightarrow> json \<times> world" where
  "api_get_loop E url params retries backoff attempt w =
     (case api_attempt E url params w of
        (Inr result, w1) \<Rightarrow> (result, w1)
      | (Inl e, w1) \<Rightarrow>
          (let attempt' = attempt + 1
           in if attempt' > retries
              then (JNull, w1\<lparr>console := console w1 @ [API_failed retries url]\<rparr>)
              else (let wait = backoff * of_int attempt'
                    in api_get_loop E url params retries backoff attempt'
                         (w1\<lparr>console := console w1 @ [Retrying wait],
                             slept := slept w1 @ [wait]\<rparr>))))"
  by pat_completeness auto
termination
  by (relation "measure (\<lambda>(E, url, params, retries, backoff, attempt, w). nat (retries - attempt))")
     auto

declare api_get_loop.simps [simp del]

definition api_get ::
  "env \<Rightarrow> string \<Rightarrow> json \<Rightarrow> int \<Rightarrow> rat \<Rightarrow> world \<Rightarrow> (exn + json) \<times> world" where
  "api_get E url params retries backoff w =
     (if RAPIDAPI_KEY E = None \<or> RAPIDAPI_KEY E = Some [] then (Inl RuntimeError, w)
      else if API_CALLS w \<ge> MAX_CALLS E then (Inl RuntimeError, w)
      else (case api_get_loop E url params retries backoff 0 w of
              (result, w') \<Rightarrow> (Inr result, w')))"

text \<open>The call with the default \<^verbatim>\<open>retries=5, backoff=0.8\<close>, as every extractor makes it.\<close>

definition api_get_default :: "env \<Rightarrow> string \<Rightarrow> json \<Rightarrow> world \<Rightarrow> (exn + json) \<times> world" where
  "api_get_default E url params w = api_get E url params 5 (4 / 5) w"

subsection \<open>The client of \<^verbatim>\<open>utils/api_client.py\<close>\<close>

text \<open>
  \<^verbatim>\<open>CricbuzzAPIClient\<close>: its two counters, the clock it reads (a pause moves it on), the
  number of HTTP attempts and what it shows in the page.
\<close>

datatype ui_msg =
    Error_rate_limit string
  | Warning_not_found string
  | Error_status string nat
  | Error_exception string

record client =
  last_api_call :: rat
  call_count :: nat
  now :: rat
  client_attempts :: nat
  shown :: "ui_msg list"

definition max_calls_per_minute :: nat where
  "max_calls_per_minute = 60"

definition check_rate_limit :: "client \<Rightarrow> client" where
  "check_rate_limit c =
     (let current_time = now c;
          c1 = (if current_time - last_api_call c \<ge> 60
                then c\<lparr>call_count := 0, last_api_call := current_time\<rparr> else c);
          c2 = (if call_count c1 \<ge> max_calls_per_minute then
                  (let wait_time = 60 - (current_time - last_api_call c1)
                   in if wait_time > 0
                      then c1\<lparr>now := now c1 + wait_time,
                              last_api_call := now c1 + wait_time,
                              call_count := 0\<rparr>
                      else c1)
                else c1)
      in c2\<lparr>call_count := call_count c2 + 1\<rparr>)"

definition base_url :: "env \<Rightarrow> string" where
  "base_url E = ''https://'' @ (case RAPIDAPI_HOST E of None \<Rightarrow> ''None'' | Some h \<Rightarrow> h)"

definition make_api_request :: "env \<Rightarrow> string \<Rightarrow> json \<Rightarrow> client \<Rightarrow> json \<times> client" where
  "make_api_request E endpoint params c =
     (let c1 = check_rate_limit c;
          url = base_url E @ ''/'' @ endpoint;
          c2 = c1\<lparr>client_attempts := Suc (client_attempts c1)\<rparr>
      in case server E (client_attempts c1) url params of
           ConnError \<Rightarrow> (JNull, c2\<lparr>shown := shown c2 @ [Error_exception endpoint]\<rparr>)
         | Response status body \<Rightarrow>
             if status = 429 then (JNull, c2\<lparr>shown := shown c2 @ [Error_rate_limit endpoint]\<rparr>)
             else if status = 404 then (JNull, c2\<lparr>shown := shown c2 @ [Warning_not_found endpoint]\<rparr>)
             else if status \<ge> 400 then (JNull, c2\<lparr>shown := shown c2 @ [Error_status endpoint status]\<rparr>)
             else (case body of
                     Some j \<Rightarrow> (j, c2)
                   | None \<Rightarrow> (JNull, c2\<lparr>shown := shown c2 @ [Error_exception endpoint]\<rparr>)))"

definition new_client :: client where
  "new_client = \<lparr>last_api_call = 0, call_count = 0, now = 1000, client_attempts = 0, shown = []\<rparr>"

subsection \<open>The fetchers of \<^verbatim>\<open>pages/2_Live_Matches.py\<close>\<close>

text \<open>
  The page keeps the time of its last call in a module global and reads the clock; a pause
  moves the clock on. \<open>lm_requests\<close> counts the calls of \<^verbatim>\<open>requests.get\<close>, \<open>lm_shown\<close>
  is what the page displays. Both fetchers are cached by Streamlit; the model is the body
  that runs when the cache has no entry.
\<close>

datatype live_msg = Config_missing | Api_status nat

record live_page =
  lm_last_api_call :: "rat option"
  lm_now :: rat
  lm_requests :: nat
  lm_slept :: "rat list"
  lm_shown :: "live_msg list"

definition min_call_interval :: rat where
  "min_call_interval = 2"

text \<open>\<^verbatim>\<open>check_rate_limit\<close> of the page.\<close>

definition live_check_rate_limit :: "live_page \<Rightarrow> live_page" where
  "live_check_rate_limit p =
     (let p1 = (case lm_last_api_call p of
                  None \<Rightarrow> p
                | Some t \<Rightarrow>
                    (let elapsed = lm_now p - t
                     in if elapsed < min_call_interval
                        then (let wait_time = min_call_interval - elapsed
                              in p\<lparr>lm_now := lm_now p + wait_time,
                                   lm_slept := lm_slept p @ [wait_time]\<rparr>)
                        else p))
      in p1\<lparr>lm_last_api_call := Some (lm_now p1)\<rparr>)"

definition get_api_headers :: "env \<Rightarrow> live_page \<Rightarrow> json option \<times> live_page" where
  "get_api_headers E p =
     (case (RAPIDAPI_KEY E, RAPIDAPI_HOST E) of
        (Some api_key, Some api_host) \<Rightarrow>
          if api_key = [] \<or> api_host = []
          then (None, p\<lparr>lm_shown := lm_shown p @ [Config_missing]\<rparr>)
          else (Some (JDict [(''X-RapidAPI-Key'', JStr api_key),
                             (''X-RapidAPI-Host'', JStr api_host)]), p)
      | _ \<Rightarrow> (None, p\<lparr>lm_shown := lm_shown p @ [Config_missing]\<rparr>))"

definition get_matches :: "env \<Rightarrow> string \<Rightarrow> live_page \<Rightarrow> json \<times> live_page" where
  "get_matches E match_type p =
     (case get_api_headers E p of
        (None, p1) \<Rightarrow> (JNull, p1)
      | (Some headers, p1) \<Rightarrow>
          (let url = base_url E @ ''/matches/v1/'' @ match_type;
               p2 = live_check_rate_limit p1;
               p3 = p2\<lparr>lm_requests := Suc (lm_requests p2)\<rparr>
           in case requests_get E (lm_requests p2) url of
                Request_exception e \<Rightarrow>
                  (JDict [(''error'', JStr ''request_error''),
                          (''message'', JStr (''Request error: '' @ e))], p3)
              | Other_exception e \<Rightarrow>
                  (JDict [(''error'', JStr ''unexpected_error''),
                          (''message'', JStr (''Unexpected error: '' @ e))], p3)
              | Got r \<Rightarrow>
                  (let p4 = p3\<lparr>lm_shown := lm_shown p3 @ [Api_status (r_status_code r)]\<rparr>
                   in if r_status_code r = 429 then
                        (JDict [(''error'', JStr ''rate_limit''),
                                (''message'', JStr (''API Rate Limit Exceeded (429). Response: '' @ r_text r)),
                                (''status_code'', JInt 429)], p4)
                      else if r_text r = [] then
                        (JDict [(''error'', JStr ''empty_response''),
                                (''message'', JStr ''API returned empty response''),
                                (''status_code'', JInt (int (r_status_code r)))], p4)
                      else (case r_json r of
                              Inr data \<Rightarrow> (data, p4)
                            | Inl e \<Rightarrow>
                                (JDict [(''error'', JStr ''invalid_json''),
                                        (''message'', JStr (''API returned non-JSON response. Status: '' @
                                           str_of_nat (r_status_code r) @ '', Content: '' @
                                           take 100 (r_text r))),
                                        (''status_code'', JInt (int (r_status_code r)))], p4)))))"

definition get_detailed_scorecard :: "env \<Rightarrow> json \<Rightarrow> live_page \<Rightarrow> json \<times> live_page" where
  "get_detailed_scorecard E match_id p =
     (case get_api_headers E p of
        (None, p1) \<Rightarrow> (JNull, p1)
      | (Some headers, p1) \<Rightarrow>
          (let url = base_url E @ ''/mcenter/v1/'' @ py_str match_id @ ''/scard'';
               p2 = live_check_rate_limit p1;
               p3 = p2\<lparr>lm_requests := Suc (lm_requests p2)\<rparr>
           in case requests_get E (lm_requests p2) url of
                Request_exception e \<Rightarrow>
                  (JDict [(''error'', JStr ''error''), (''message'', JStr (''Error: '' @ e))], p3)
              | Other_exception e \<Rightarrow>
                  (JDict [(''error'', JStr ''error''), (''message'', JStr (''Error: '' @ e))], p3)
              | Got r \<Rightarrow>
                  if r_status_code r = 429 then
                    (JDict [(''error'', JStr ''rate_limit''),
                            (''message'', JStr (''API Rate Limit Exceeded (429). Response: '' @ r_text r))], p3)
                  else if r_text r = [] then
                    (JDict [(''error'', JStr ''empty_response''),
                            (''message'', JStr ''API returned empty response'')], p3)
                  else if 400 \<le> r_status_code r \<and> r_status_code r < 600 then
                    (if r_status_code r = 429 then
                       (JDict [(''error'', JStr ''rate_limit''),
                               (''message'', JStr (''API Rate Limit Exceeded (429). Response: '' @ r_text r))], p3)
                     else
                       (JDict [(''error'', JStr ''http_error''),
                               (''message'', JStr (''HTTP error: '' @ r_http_error r))], p3))
                  else (case r_json r of
                          Inr data \<Rightarrow> (data, p3)
                        | Inl e \<Rightarrow>
                            (JDict [(''error'', JStr ''error''),
                                    (''message'', JStr (''Error: '' @ e))], p3))))"

definition new_live_page :: live_page where
  "new_live_page =
     \<lparr>lm_last_api_call = None, lm_now = 1000, lm_requests = 0, lm_slept = [], lm_shown = []\<rparr>"

subsection \<open>Two servers for examples\<close>

definition rate_limited_env :: env where
  "rate_limited_env =
     example_env\<lparr>server := (\<lambda>k url params.
        Response 429 (Some (JDict [(''message'', JStr ''Too many requests'')]))),
       requests_get := (\<lambda>k url.
        Got \<lparr>r_status_code = 429, r_text = ''Too many requests'',
             r_json = Inl ''Expecting value: line 1 column 1 (char 0)'',
             r_http_error = ''429 Client Error: Too Many Requests''\<rparr>)\<rparr>"

definition malformed_env :: env where
  "malformed_env =
     example_env\<lparr>server := (\<lambda>k url params. Response 200 None),
       requests_get := (\<lambda>k url.
        Got \<lparr>r_status_code = 200, r_text = ''<html>'',
             r_json = Inl ''Expecting value: line 1 column 1 (char 0)'',
             r_http_error = []\<rparr>)\<rparr>"

definition empty_body_env :: env where
  "empty_body_env =
     example_env\<lparr>requests_get := (\<lambda>k url.
        Got \<lparr>r_status_code = 200, r_text = [],
             r_json = Inl ''Expecting value: line 1 column 1 (char 0)'',
             r_http_error = []\<rparr>)\<rparr>"

section \<open>Partnerships derived from the batting order\<close>

text \<open>
  \<^verbatim>\<open>derive_partnerships_from_batsmen\<close>. The body of the \<^verbatim>\<open>for\<close> loop first reads
  \<^verbatim>\<open>b.get("id")\<close>, \<^verbatim>\<open>int(b.get("runs") or 0)\<close> and \<^verbatim>\<open>int(b.get("balls") or 0)\<close>;
  any of them may raise, which ends the function.
\<close>

definition batsman_fields :: "json \<Rightarrow> exn + (json \<times> int \<times> int)" where
  "batsman_fields b =
     bindE (py_get b ''id'') (\<lambda>pid.
     bindE (py_get b ''runs'') (\<lambda>rv.
     bindE (py_int (py_or rv (JInt 0))) (\<lambda>runs.
     bindE (py_get b ''balls'') (\<lambda>bv.
     bindE (py_int (py_or bv (JInt 0))) (\<lambda>balls.
     Inr (pid, runs, balls))))))"

definition mk_partnership :: "json \<Rightarrow> json \<Rightarrow> int \<Rightarrow> int \<Rightarrow> json" where
  "mk_partnership p1 p2 r b =
     JDict [(''player1Id'', p1), (''player2Id'', p2), (''runs'', JInt r), (''balls'', JInt b)]"

text \<open>
  The loop, with its four variables \<^verbatim>\<open>partnerships\<close>, \<^verbatim>\<open>current_pair\<close>,
  \<^verbatim>\<open>runs_accum\<close> and \<^verbatim>\<open>balls_accum\<close>.
\<close>

fun derive_loop ::
  "json list \<Rightarrow> json list \<Rightarrow> json list \<Rightarrow> int \<Rightarrow> int \<Rightarrow> exn + json list" where
  "derive_loop [] partnerships current_pair runs_accum balls_accum = Inr partnerships"
| "derive_loop (b # bs) partnerships current_pair runs_accum balls_accum =
     (case batsman_fields b of
        Inl e \<Rightarrow> Inl e
      | Inr (pid, runs, balls) \<Rightarrow>
          (let current_pair' = current_pair @ [pid];
               runs_accum' = runs_accum + runs;
               balls_accum' = balls_accum + balls
           in if length current_pair' = 2
              then derive_loop bs
                     (partnerships @
                        [mk_partnership (current_pair' ! 0) (current_pair' ! 1)
                           runs_accum' balls_accum'])
                     [current_pair' ! 1] 0 0
              else derive_loop bs partnerships current_pair' runs_accum' balls_accum'))"

definition derive_partnerships_from_batsmen :: "json list \<Rightarrow> exn + json list" where
  "derive_partnerships_from_batsmen batsmen = derive_loop batsmen [] [] 0 0"

text \<open>
  The derivation as the specification words it, on the batting order read off the entries
  (identifier, runs, balls): the first pair sums the first two batsmen; every later pair is
  (previous second member, next batsman) and, the accumulator having been reset, holds the
  next batsman's runs and balls only. A pair is the record with the four keys
  \<^verbatim>\<open>player1Id\<close>, \<^verbatim>\<open>player2Id\<close>, \<^verbatim>\<open>runs\<close> and \<^verbatim>\<open>balls\<close>, written out here.
\<close>

fun later_pairs :: "json \<Rightarrow> (json \<times> int \<times> int) list \<Rightarrow> json list" where
  "later_pairs prev [] = []"
| "later_pairs prev ((pid, runs, balls) # rest) =
     JDict [(''player1Id'', prev), (''player2Id'', pid),
            (''runs'', JInt runs), (''balls'', JInt balls)] # later_pairs pid rest"

fun spec_partnerships :: "(json \<times> int \<times> int) list \<Rightarrow> json list" where
  "spec_partnerships ((p1, r1, b1) # (p2, r2, b2) # rest) =
     JDict [(''player1Id'', p1), (''player2Id'', p2),
            (''runs'', JInt (r1 + r2)), (''balls'', JInt (b1 + b2))] # later_pairs p2 rest"
| "spec_partnerships _ = []"

text \<open>
  The batting order of a list of entries: what each entry holds, or the error of the first
  entry that cannot be read (it is no dict, or its runs or balls do not convert).
\<close>

fun batting_order :: "json list \<Rightarrow> exn + (json \<times> int \<times> int) list" where
  "batting_order [] = Inr []"
| "batting_order (b # bs) =
     (case batsman_fields b of
        Inl e \<Rightarrow> Inl e
      | Inr x \<Rightarrow> (case batting_order bs of Inl e \<Rightarrow> Inl e | Inr xs \<Rightarrow> Inr (x # xs)))"

definition batsman :: "int \<Rightarrow> int \<Rightarrow> int \<Rightarrow> json" where
  "batsman pid runs balls = JDict [(''id'', JInt pid), (''runs'', JInt runs), (''balls'', JInt balls)]"

section \<open>More of Python\<close>

text \<open>
  \<^verbatim>\<open>d.get(k1) or d.get(k2) or ...\<close>: the first truthy value, else the last one read.
  \<open>or_else a rest\<close> is \<^verbatim>\<open>a or rest\<close> where evaluating \<open>rest\<close> may raise and is
  skipped when \<open>a\<close> is truthy.
\<close>

fun get_or :: "json \<Rightarrow> string list \<Rightarrow> exn + json" where
  "get_or d [] = Inr JNull"
| "get_or d [k] = py_get d k"
| "get_or d (k # k' # ks) =
     (case py_get d k of
        Inl e \<Rightarrow> Inl e
      | Inr v \<Rightarrow> if truthy v then Inr v else get_or d (k' # ks))"

definition or_else :: "json \<Rightarrow> exn + json \<Rightarrow> exn + json" where
  "or_else a rest = (if truthy a then Inr a else rest)"

text \<open>
  \<^verbatim>\<open>for x in v\<close> (a dict gives its keys, a string its characters), \<^verbatim>\<open>v[0]\<close>,
  \<^verbatim>\<open>len(v)\<close> and \<^verbatim>\<open>k in v\<close> for a string \<open>k\<close>.
\<close>

fun py_iter :: "json \<Rightarrow> exn + json list" where
  "py_iter (JList xs) = Inr xs"
| "py_iter (JDict kvs) = Inr (map (\<lambda>kv. JStr (fst kv)) kvs)"
| "py_iter (JStr s) = Inr (map (\<lambda>c. JStr [c]) s)"
| "py_iter _ = Inl TypeError"

fun py_index0 :: "json \<Rightarrow> exn + json" where
  "py_index0 (JList xs) = (case xs of [] \<Rightarrow> Inl IndexError | x # _ \<Rightarrow> Inr x)"
| "py_index0 (JStr s) = (case s of [] \<Rightarrow> Inl IndexError | c # _ \<Rightarrow> Inr (JStr [c]))"
| "py_index0 (JDict kvs) = Inl KeyError"
| "py_index0 _ = Inl TypeError"

fun py_len :: "json \<Rightarrow> exn + int" where
  "py_len (JList xs) = Inr (int (length xs))"
| "py_len (JDict kvs) = Inr (int (length kvs))"
| "py_len (JStr s) = Inr (int (length s))"
| "py_len _ = Inl TypeError"

fun is_substring :: "string \<Rightarrow> string \<Rightarrow> bool" where
  "is_substring k [] = (k = [])"
| "is_substring k (c # cs) = (take (length k) (c # cs) = k \<or> is_substring k cs)"

fun py_in :: "string \<Rightarrow> json \<Rightarrow> exn + bool" where
  "py_in k (JDict kvs) = Inr (k \<in> set (map fst kvs))"
| "py_in k (JList xs) = Inr (JStr k \<in> set xs)"
| "py_in k (JStr s) = Inr (is_substring k s)"
| "py_in k _ = Inl TypeError"

section \<open>Writing to the store\<close>

text \<open>
  \<^verbatim>\<open>INSERT ... ON DUPLICATE KEY UPDATE\<close>: when a stored row has the same value in a
  primary or unique key as the new row (\<open>dup\<close>), that row is updated (\<open>upd\<close>); otherwise
  the new row is added.
\<close>

fun on_duplicate_key_update :: "('r \<Rightarrow> bool) \<Rightarrow> ('r \<Rightarrow> 'r) \<Rightarrow> 'r \<Rightarrow> 'r list \<Rightarrow> 'r list" where
  "on_duplicate_key_update dup upd new [] = [new]"
| "on_duplicate_key_update dup upd new (r # rs) =
     (if dup r then upd r # rs else r # on_duplicate_key_update dup upd new rs)"

subsection \<open>The extractors that the upserts call\<close>

definition extract_player_profile :: "env \<Rightarrow> int \<Rightarrow> world \<Rightarrow> (exn + json) \<times> world" where
  "extract_player_profile E player_id w =
     api_get_default E (''https://cricbuzz-cricket.p.rapidapi.com/stats/v1/player/'' @ str_of_int player_id)
       JNull w"

definition extract_match_info :: "env \<Rightarrow> int \<Rightarrow> world \<Rightarrow> (exn + json) \<times> world" where
  "extract_match_info E match_id w =
     api_get_default E (''https://cricbuzz-cricket.p.rapidapi.com/mcenter/v1/'' @ str_of_int match_id)
       JNull w"

definition extract_teams :: "env \<Rightarrow> world \<Rightarrow> (exn + json) \<times> world" where
  "extract_teams E w =
     api_get_default E ''https://cricbuzz-cricket.p.rapidapi.com/teams/v1/international'' JNull w"

definition extract_players :: "env \<Rightarrow> int \<Rightarrow> world \<Rightarrow> (exn + json) \<times> world" where
  "extract_players E team_id w =
     api_get_default E
       (''https://cricbuzz-cricket.p.rapidapi.com/teams/v1/'' @ str_of_int team_id @ ''/players'')
       JNull w"

subsection \<open>\<^verbatim>\<open>upsert_team\<close>\<close>

text \<open>
  The values the function computes before its one statement: \<open>Inr None\<close> is the early
  \<^verbatim>\<open>return\<close> taken when the identifier is 0.
\<close>

definition team_values :: "json \<Rightarrow> exn + team_row option" where
  "team_values team =
     bindE (get_or team [''teamId'', ''id'']) (\<lambda>i.
     bindE (py_int (py_or i (JInt 0))) (\<lambda>team_id.
     if team_id = 0 then Inr None
     else
       bindE (get_or team [''teamName'', ''name'']) (\<lambda>name.
       bindE (get_or team [''teamSName'', ''shortName'', ''sName'']) (\<lambda>sname.
       bindE (py_get team ''country'') (\<lambda>c.
       Inr (Some \<lparr>t_team_id = team_id, t_name = name, t_short_name = sname,
                  t_country = py_or c name\<rparr>))))))"

definition insert_team :: "team_row \<Rightarrow> world \<Rightarrow> world" where
  "insert_team new w =
     w\<lparr>teams := on_duplicate_key_update (\<lambda>r. t_team_id r = t_team_id new)
                   (\<lambda>r. r\<lparr>t_name := t_name new, t_short_name := t_short_name new,
                           t_country := t_country new\<rparr>)
                   new (teams w)\<rparr>"

definition upsert_team :: "json \<Rightarrow> world \<Rightarrow> (exn + unit) \<times> world" where
  "upsert_team team w =
     (case team_values team of
        Inl e \<Rightarrow> (Inl e, w)
      | Inr None \<Rightarrow> (Inr (), w)
      | Inr (Some new) \<Rightarrow> (Inr (), insert_team new w))"

subsection \<open>\<^verbatim>\<open>upsert_player\<close>\<close>

definition player_id_of :: "json \<Rightarrow> exn + int" where
  "player_id_of player =
     bindE (get_or player [''id'', ''playerId'']) (\<lambda>i. py_int (py_or i (JInt 0)))"

definition player_values :: "json \<Rightarrow> int \<Rightarrow> int \<Rightarrow> json \<Rightarrow> exn + player_row" where
  "player_values player pid team_id enrich =
     bindE (bindE (py_get player ''name'') (\<lambda>a. or_else a
             (bindE (py_get enrich ''name'') (\<lambda>b. or_else b
               (bindE (get_or player [''fullName'', ''batName'']) (\<lambda>c. or_else c
                 (Inr (JStr (''Player '' @ str_of_int pid))))))))) (\<lambda>name.
     bindE (bindE (get_or player [''role'', ''playingRole'']) (\<lambda>a. or_else a
             (py_get enrich ''role''))) (\<lambda>role.
     bindE (bindE (get_or player [''bat'', ''battingStyle'']) (\<lambda>a. or_else a
             (py_get enrich ''bat''))) (\<lambda>bat.
     bindE (bindE (get_or player [''bowl'', ''bowlingStyle'']) (\<lambda>a. or_else a
             (py_get enrich ''bowl''))) (\<lambda>bowl.
     bindE (bindE (get_or player [''intlTeam'', ''teamName'']) (\<lambda>a. or_else a
             (py_get enrich ''intlTeam''))) (\<lambda>country.
     Inr \<lparr>p_player_id = pid, p_name = name, p_role = role, p_bat_style = bat,
          p_bowl_style = bowl, p_team_id = team_id, p_country = country\<rparr>)))))"

text \<open>The statement; \<^verbatim>\<open>players.team_id\<close> references \<^verbatim>\<open>teams\<close>.\<close>

definition insert_player :: "player_row \<Rightarrow> world \<Rightarrow> (exn + unit) \<times> world" where
  "insert_player new w =
     (if p_team_id new \<notin> set (map t_team_id (teams w)) then (Inl IntegrityError, w)
      else (Inr (),
            w\<lparr>players := on_duplicate_key_update (\<lambda>r. p_player_id r = p_player_id new)
                 (\<lambda>r. r\<lparr>p_name := p_name new, p_role := p_role new,
                         p_bat_style := p_bat_style new, p_bowl_style := p_bowl_style new,
                         p_team_id := p_team_id new, p_country := p_country new\<rparr>)
                 new (players w)\<rparr>))"

text \<open>
  \<open>enrich\<close> is the optional fourth argument; when it is None the profile is fetched, and
  \<^verbatim>\<open>extract_player_profile(pid) or {}\<close> replaces a falsy answer by the empty dict.
\<close>

definition upsert_player ::
  "env \<Rightarrow> json \<Rightarrow> int \<Rightarrow> json \<Rightarrow> world \<Rightarrow> (exn + unit) \<times> world" where
  "upsert_player E player team_id enrich w =
     (case player_id_of player of
        Inl e \<Rightarrow> (Inl e, w)
      | Inr pid \<Rightarrow>
          if pid = 0 then (Inr (), w)
          else
            (case (if enrich = JNull
                   then (case extract_player_profile E pid w of
                           (Inl e, w1) \<Rightarrow> (Inl e, w1)
                         | (Inr p, w1) \<Rightarrow> (Inr (py_or p (JDict [])), w1))
                   else (Inr enrich, w)) of
               (Inl e, w1) \<Rightarrow> (Inl e, w1)
             | (Inr enrich', w1) \<Rightarrow>
                 (case player_values player pid team_id enrich' of
                    Inl e \<Rightarrow> (Inl e, w1)
                  | Inr new \<Rightarrow> insert_player new w1)))"


subsection \<open>\<^verbatim>\<open>get_or_create_venue\<close>\<close>

text \<open>
  The nested \<^verbatim>\<open>safe_capacity\<close>: thousands separators and surrounding blanks are dropped,
  the placeholders and everything \<^verbatim>\<open>int\<close> rejects give None.
\<close>

definition safe_capacity :: "json \<Rightarrow> int option" where
  "safe_capacity val =
     (if val = JNull then None
      else (let val' = py_strip (filter (\<lambda>c. c \<noteq> CHR '','') (py_str val))
            in if val' = [] \<or> val' \<in> set [''-'', ''N/A'', ''NA'', ''null''] then None
               else int_of_str val'))"

definition coalesce :: "json \<Rightarrow> json" where
  "coalesce v = (if v = JNull then JStr [] else v)"

text \<open>
  The \<^verbatim>\<open>SELECT\<close> compares values for equality (the collation of the database is not
  modelled); \<^verbatim>\<open>fetchone\<close> takes the first row found. A new row gets the next
  \<^verbatim>\<open>AUTO_INCREMENT\<close> value, which \<^verbatim>\<open>lastrowid\<close> returns. The unique key on
  (name, city, country) cannot be violated by the \<^verbatim>\<open>INSERT\<close>, which runs only when the
  \<^verbatim>\<open>SELECT\<close> found no row.
\<close>

definition get_or_create_venue ::
  "json \<Rightarrow> json \<Rightarrow> json \<Rightarrow> json \<Rightarrow> world \<Rightarrow> int option \<times> world" where
  "get_or_create_venue name city country capacity w =
     (if \<not> truthy name then (None, w)
      else
        (let capacity' = safe_capacity capacity
         in case filter (\<lambda>r. v_name r = name \<and> coalesce (v_city r) = coalesce city \<and>
                              coalesce (v_country r) = coalesce country) (venues w) of
              row # _ \<Rightarrow>
                (let vid = v_venue_id row
                 in (Some vid,
                     w\<lparr>venues := map (\<lambda>r. if v_venue_id r = vid
                          then r\<lparr>v_capacity :=
                                   Some (max (case v_capacity r of None \<Rightarrow> 0 | Some c \<Rightarrow> c)
                                             (case capacity' of None \<Rightarrow> 0 | Some c \<Rightarrow> c))\<rparr>
                          else r) (venues w)\<rparr>))
            | [] \<Rightarrow>
                (Some (venues_auto w),
                 w\<lparr>venues := venues w @
                      [\<lparr>v_venue_id = venues_auto w, v_name = name, v_city = city,
                        v_country = country, v_capacity = capacity'\<rparr>],
                    venues_auto := venues_auto w + 1\<rparr>)))"

subsection \<open>\<^verbatim>\<open>upsert_series\<close>\<close>

text \<open>
  The \<^verbatim>\<open>for bucket in md\<close> loop that looks for the first match, up to its \<^verbatim>\<open>break\<close>,
  and the \<^verbatim>\<open>sum(len(...))\<close> over the buckets that are dicts.
\<close>

fun find_first_match :: "json list \<Rightarrow> exn + json" where
  "find_first_match [] = Inr JNull"
| "find_first_match (bucket # rest) =
     (case bucket of
        JDict kvs \<Rightarrow>
          (case map_of kvs ''matchDetailsMap'' of
             None \<Rightarrow> find_first_match rest
           | Some mm \<Rightarrow>
               (case py_get_default mm ''match'' (JList []) of
                  Inl e \<Rightarrow> Inl e
                | Inr ms \<Rightarrow>
                    if truthy ms
                    then bindE (py_index0 ms) (\<lambda>first. py_get first ''matchInfo'')
                    else find_first_match rest))
      | _ \<Rightarrow> find_first_match rest)"

fun count_matches :: "json list \<Rightarrow> exn + int" where
  "count_matches [] = Inr 0"
| "count_matches (bucket # rest) =
     (if is_dict bucket
      then (case bindE (py_get_default bucket ''matchDetailsMap'' (JDict [])) (\<lambda>mm.
                 bindE (py_get_default mm ''match'' (JList [])) py_len) of
              Inl e \<Rightarrow> Inl e
            | Inr n \<Rightarrow> (case count_matches rest of Inl e \<Rightarrow> Inl e | Inr k \<Rightarrow> Inr (n + k)))
      else count_matches rest)"

text \<open>The three values that the \<^verbatim>\<open>if md:\<close> block may replace.\<close>

definition derive_series_fields ::
  "json \<Rightarrow> json \<Rightarrow> json \<Rightarrow> json \<Rightarrow> exn + (json \<times> json \<times> json)" where
  "derive_series_fields md host_country match_type total_matches =
     (if \<not> truthy md then Inr (host_country, match_type, total_matches)
      else
        bindE (py_iter md) (\<lambda>buckets.
        bindE (find_first_match buckets) (\<lambda>first_match.
        bindE (if truthy first_match
               then bindE (py_get_default first_match ''venueInfo'' (JDict [])) (\<lambda>vinfo.
                    bindE (if \<not> truthy host_country then get_or vinfo [''country'', ''city'']
                           else Inr host_country) (\<lambda>host_country'.
                    bindE (if \<not> truthy match_type then py_get first_match ''matchFormat''
                           else Inr match_type) (\<lambda>match_type'.
                    Inr (host_country', match_type'))))
               else Inr (host_country, match_type)) (\<lambda>(host_country', match_type').
        bindE (if \<not> truthy total_matches
               then bindE (count_matches buckets) (\<lambda>n. Inr (JInt n))
               else Inr total_matches) (\<lambda>total_matches'.
        Inr (host_country', match_type', total_matches'))))))"

definition series_values :: "env \<Rightarrow> json \<Rightarrow> exn + series_row option" where
  "series_values E s =
     bindE (get_or s [''seriesId'', ''id'']) (\<lambda>i.
     bindE (py_int (py_or i (JInt 0))) (\<lambda>sid.
     if sid = 0 then Inr None
     else
       bindE (get_or s [''seriesName'', ''name'']) (\<lambda>name.
       bindE (py_get s ''hostCountry'') (\<lambda>host_country.
       bindE (py_get s ''matchType'') (\<lambda>match_type.
       bindE (py_get s ''totalMatches'') (\<lambda>total_matches.
       bindE (py_get s ''matchDetails'') (\<lambda>md0.
       bindE (derive_series_fields (py_or md0 (JList [])) host_country match_type total_matches)
         (\<lambda>(host_country', match_type', total_matches').
       bindE (get_or s [''seriesStartDt'', ''startDt'']) (\<lambda>start.
       bindE (get_or s [''seriesEndDt'', ''endDt'']) (\<lambda>end.
       Inr (Some \<lparr>s_series_id = sid, s_name = name, s_host_country = host_country',
                  s_match_type = match_type', s_start_date = to_date E start,
                  s_end_date = to_date E end, s_total_matches = total_matches'\<rparr>)))))))))))"

definition insert_series :: "series_row \<Rightarrow> world \<Rightarrow> world" where
  "insert_series new w =
     w\<lparr>series := on_duplicate_key_update (\<lambda>r. s_series_id r = s_series_id new)
                    (\<lambda>r. r\<lparr>s_name := s_name new, s_host_country := s_host_country new,
                            s_match_type := s_match_type new, s_start_date := s_start_date new,
                            s_end_date := s_end_date new,
                            s_total_matches := s_total_matches new\<rparr>)
                    new (series w)\<rparr>"

definition upsert_series :: "env \<Rightarrow> json \<Rightarrow> world \<Rightarrow> (exn + unit) \<times> world" where
  "upsert_series E s w =
     (case series_values E s of
        Inl e \<Rightarrow> (Inl e, w)
      | Inr None \<Rightarrow> (Inr (), w)
      | Inr (Some new) \<Rightarrow> (Inr (), insert_series new w))"


subsection \<open>\<^verbatim>\<open>upsert_match_basic\<close>\<close>

text \<open>Truth value of an optional integer: None and 0 are falsy.\<close>

definition truthy_int :: "int option \<Rightarrow> bool" where
  "truthy_int x = (case x of None \<Rightarrow> False | Some n \<Rightarrow> n \<noteq> 0)"

text \<open>\<^verbatim>\<open>t1\<close>, \<^verbatim>\<open>t2\<close>, \<^verbatim>\<open>team1_id\<close> and \<^verbatim>\<open>team2_id\<close>.\<close>

definition match_teams :: "json \<Rightarrow> exn + (json \<times> json \<times> int option \<times> int option)" where
  "match_teams m =
     bindE (py_get m ''team1'') (\<lambda>a.
     bindE (py_get m ''team2'') (\<lambda>b.
     (let t1 = py_or (py_or a (JDict [])) (JDict []);
          t2 = py_or (py_or b (JDict [])) (JDict [])
      in bindE (get_or t1 [''teamId'', ''id'']) (\<lambda>i1.
         bindE (get_or t2 [''teamId'', ''id'']) (\<lambda>i2.
         Inr (t1, t2, to_int i1 (Some 0), to_int i2 (Some 0)))))))"

text \<open>The four arguments passed to \<^verbatim>\<open>get_or_create_venue\<close>.\<close>

definition match_venue :: "json \<Rightarrow> exn + (json \<times> json \<times> json \<times> json)" where
  "match_venue m =
     bindE (get_or m [''venueInfo'', ''venue'']) (\<lambda>v.
     (let vinfo = py_or v (JDict [])
      in bindE (get_or vinfo [''ground'', ''name'']) (\<lambda>venue_name.
         bindE (py_get vinfo ''city'') (\<lambda>venue_city.
         bindE (py_get vinfo ''country'') (\<lambda>venue_country.
         bindE (py_get vinfo ''capacity'') (\<lambda>capacity.
         Inr (venue_name, venue_city, venue_country, capacity)))))))"

text \<open>
  The local variables from \<^verbatim>\<open># --- Dates ---\<close> on. The first five are the ones the
  match-centre enrichment may assign again; \<open>hdr\<close>, \<open>toss_block\<close> and \<open>res\<close> are set
  inside its \<^verbatim>\<open>try\<close> block.
\<close>

record match_vars =
  winner_id :: "int option"
  toss_winner_id :: "int option"
  toss_decision :: json
  win_margin :: json
  victory_type :: json
  mdate :: "string option"
  mformat :: json
  desc :: json
  hdr :: json
  toss_block :: json
  res :: json

definition match_light :: "env \<Rightarrow> json \<Rightarrow> exn + match_vars" where
  "match_light E m =
     bindE (get_or m [''matchDate'', ''startDate'', ''startTime'']) (\<lambda>d.
     bindE (py_get m ''matchWinner'') (\<lambda>mw.
     bindE (py_get m ''winnerTeamId'') (\<lambda>wt.
     bindE (if is_dict mw then bindE (py_get mw ''teamId'') (\<lambda>t. Inr (to_int t None))
            else if truthy_int (to_int wt None) then Inr (to_int wt None)
            else Inr None) (\<lambda>winner.
     bindE (get_or m [''tossResults'', ''toss'']) (\<lambda>t0.
     (let toss = py_or t0 (JDict [])
      in bindE (get_or toss [''tossWinnerId'', ''winnerId'']) (\<lambda>tw.
         bindE (get_or toss [''decision'', ''tossDecision'']) (\<lambda>td.
         bindE (py_get m ''result'') (\<lambda>r0.
         (let result = py_or r0 (JDict [])
          in bindE (get_or result [''resultMargin'', ''margin'']) (\<lambda>wm.
             bindE (or_else wm (py_get m ''winMargin'')) (\<lambda>margin.
             bindE (get_or result [''resultType'', ''victoryType'']) (\<lambda>vt.
             bindE (or_else vt (py_get m ''status'')) (\<lambda>vtype.
             bindE (get_or m [''matchFormat'', ''format'']) (\<lambda>fmt.
             bindE (get_or m [''matchDescription'', ''matchDesc'', ''seriesName'', ''status''])
               (\<lambda>dsc.
             Inr \<lparr>winner_id = winner, toss_winner_id = to_int tw None, toss_decision = td,
                  win_margin = margin, victory_type = short vtype 50,
                  mdate = to_date E d, mformat = fmt, desc = dsc,
                  hdr = JNull, toss_block = JNull, res = JNull\<rparr>))))))))))))))))"

definition need_mcenter :: "match_vars \<Rightarrow> bool" where
  "need_mcenter V =
     (winner_id V = None \<or> toss_winner_id V = None \<or> toss_decision V = JNull \<or>
      win_margin V = JNull \<or> victory_type V = JNull)"

text \<open>
  The statements of the \<^verbatim>\<open>try\<close> block after the fetch, one function each. An operand
  of \<^verbatim>\<open>or\<close> is read only when the ones before it are falsy.
\<close>

definition set_hdr :: "json \<Rightarrow> match_vars \<Rightarrow> exn + match_vars" where
  "set_hdr mc V = bindE (py_get mc ''matchHeader'') (\<lambda>h. Inr (V\<lparr>hdr := py_or h (JDict [])\<rparr>))"

definition set_winner_id :: "match_vars \<Rightarrow> exn + match_vars" where
  "set_winner_id V =
     (if truthy_int (winner_id V) then Inr V
      else bindE (py_get (hdr V) ''winningTeamId'') (\<lambda>x. Inr (V\<lparr>winner_id := to_int x None\<rparr>)))"

definition set_toss_block :: "match_vars \<Rightarrow> exn + match_vars" where
  "set_toss_block V =
     bindE (py_get (hdr V) ''tossResults'') (\<lambda>t. Inr (V\<lparr>toss_block := py_or t (JDict [])\<rparr>))"

definition set_toss_winner_id :: "match_vars \<Rightarrow> exn + match_vars" where
  "set_toss_winner_id V =
     (if truthy_int (toss_winner_id V) then Inr V
      else bindE (get_or (toss_block V) [''tossWinnerId'', ''winnerId''])
             (\<lambda>x. Inr (V\<lparr>toss_winner_id := to_int x None\<rparr>)))"

definition set_toss_decision :: "match_vars \<Rightarrow> exn + match_vars" where
  "set_toss_decision V =
     bindE (or_else (toss_decision V) (get_or (toss_block V) [''decision'', ''tossDecision'']))
       (\<lambda>x. Inr (V\<lparr>toss_decision := x\<rparr>))"

definition set_res :: "match_vars \<Rightarrow> exn + match_vars" where
  "set_res V = bindE (py_get (hdr V) ''result'') (\<lambda>r. Inr (V\<lparr>res := py_or r (JDict [])\<rparr>))"

definition set_win_margin :: "match_vars \<Rightarrow> exn + match_vars" where
  "set_win_margin V =
     bindE (or_else (win_margin V) (get_or (res V) [''resultMargin'', ''margin'']))
       (\<lambda>x. Inr (V\<lparr>win_margin := x\<rparr>))"

definition set_victory_type :: "match_vars \<Rightarrow> exn + match_vars" where
  "set_victory_type V =
     bindE (or_else (victory_type V)
             (bindE (get_or (res V) [''resultType'', ''victoryType'']) (\<lambda>a.
                or_else a (py_get (hdr V) ''status''))))
       (\<lambda>x. Inr (V\<lparr>victory_type := short x 50\<rparr>))"

text \<open>
  Running the statements in order: the first one that raises ends the block, and the
  variables keep what was assigned before it. The flag says whether one raised.
\<close>

fun run_block :: "('a \<Rightarrow> exn + 'a) list \<Rightarrow> 'a \<Rightarrow> 'a \<times> bool" where
  "run_block [] V = (V, False)"
| "run_block (stmt # stmts) V =
     (case stmt V of Inl e \<Rightarrow> (V, True) | Inr V' \<Rightarrow> run_block stmts V')"

definition mcenter_enrich :: "env \<Rightarrow> int \<Rightarrow> match_vars \<Rightarrow> world \<Rightarrow> match_vars \<times> world" where
  "mcenter_enrich E mid V w =
     (case extract_match_info E mid w of
        (Inl e, w1) \<Rightarrow> (V, w1\<lparr>console := console w1 @ [Mcenter_failed mid]\<rparr>)
      | (Inr mc0, w1) \<Rightarrow>
          (case run_block [set_hdr (py_or mc0 (JDict [])), set_winner_id, set_toss_block,
                           set_toss_winner_id, set_toss_decision, set_res, set_win_margin,
                           set_victory_type] V of
             (V', raised) \<Rightarrow>
               (V', if raised then w1\<lparr>console := console w1 @ [Mcenter_failed mid]\<rparr> else w1)))"

text \<open>The coercion of a numeric margin after the enrichment.\<close>

definition coerce_margin :: "json \<Rightarrow> json" where
  "coerce_margin wm =
     (case wm of
        JStr s \<Rightarrow>
          if py_isdigit (py_strip s)
          then (case int_of_str (py_strip s) of Some n \<Rightarrow> JInt n | None \<Rightarrow> wm)
          else wm
      | _ \<Rightarrow> wm)"

text \<open>
  The statement. \<^verbatim>\<open>matches\<close> references \<^verbatim>\<open>series\<close>, \<^verbatim>\<open>teams\<close> (twice) and
  \<^verbatim>\<open>venues\<close>; a NULL passes a foreign key.
\<close>

definition references :: "int option \<Rightarrow> int list \<Rightarrow> bool" where
  "references fk keys = (case fk of None \<Rightarrow> True | Some k \<Rightarrow> k \<in> set keys)"

definition insert_match :: "match_row \<Rightarrow> world \<Rightarrow> (exn + unit) \<times> world" where
  "insert_match new w =
     (if \<not> (references (m_series_id new) (map s_series_id (series w)) \<and>
            references (m_team1_id new) (map t_team_id (teams w)) \<and>
            references (m_team2_id new) (map t_team_id (teams w)) \<and>
            references (m_venue_id new) (map v_venue_id (venues w)))
      then (Inl IntegrityError, w)
      else (Inr (),
            w\<lparr>matches := on_duplicate_key_update (\<lambda>r. m_match_id r = m_match_id new)
                 (\<lambda>r. r\<lparr>m_series_id := m_series_id new, m_team1_id := m_team1_id new,
                         m_team2_id := m_team2_id new, m_match_date := m_match_date new,
                         m_venue_id := m_venue_id new, m_winner_id := m_winner_id new,
                         m_win_margin := m_win_margin new,
                         m_victory_type := m_victory_type new,
                         m_toss_winner_id := m_toss_winner_id new,
                         m_toss_decision := m_toss_decision new,
                         m_match_format := m_match_format new,
                         m_description := m_description new\<rparr>)
                 new (matches w)\<rparr>))"

definition upsert_match_basic ::
  "env \<Rightarrow> json \<Rightarrow> int option \<Rightarrow> world \<Rightarrow> (exn + unit) \<times> world" where
  "upsert_match_basic E m series_id w =
     (case get_or m [''matchId'', ''id''] of
        Inl e \<Rightarrow> (Inl e, w)
      | Inr i \<Rightarrow>
     (case to_int i None of
        None \<Rightarrow> (Inr (), w)
      | Some mid \<Rightarrow>
     if mid = 0 then (Inr (), w)
     else
     (case match_teams m of
        Inl e \<Rightarrow> (Inl e, w)
      | Inr (t1, t2, team1_id, team2_id) \<Rightarrow>
     (case (if truthy_int team1_id then upsert_team t1 w else (Inr (), w)) of
        (Inl e, w1) \<Rightarrow> (Inl e, w1)
      | (Inr u1, w1) \<Rightarrow>
     (case (if truthy_int team2_id then upsert_team t2 w1 else (Inr (), w1)) of
        (Inl e, w2) \<Rightarrow> (Inl e, w2)
      | (Inr u2, w2) \<Rightarrow>
     (case match_venue m of
        Inl e \<Rightarrow> (Inl e, w2)
      | Inr (venue_name, venue_city, venue_country, capacity) \<Rightarrow>
     (case get_or_create_venue venue_name venue_city venue_country capacity w2 of
        (venue_id, w3) \<Rightarrow>
     (case match_light E m of
        Inl e \<Rightarrow> (Inl e, w3)
      | Inr V \<Rightarrow>
     (case (if need_mcenter V then mcenter_enrich E mid V w3 else (V, w3)) of
        (V', w4) \<Rightarrow>
          insert_match
            \<lparr>m_match_id = mid, m_series_id = series_id, m_team1_id = team1_id,
             m_team2_id = team2_id, m_match_date = mdate V', m_venue_id = venue_id,
             m_winner_id = winner_id V', m_win_margin = coerce_margin (win_margin V'),
             m_victory_type = victory_type V', m_toss_winner_id = toss_winner_id V',
             m_toss_decision = toss_decision V', m_match_format = mformat V',
             m_description = desc V'\<rparr> w4)))))))))"


subsection \<open>\<^verbatim>\<open>resolve_team_id\<close> and \<^verbatim>\<open>insert_batting_score\<close>\<close>

text \<open>
  \<^verbatim>\<open>resolve_team_id\<close>: the first team whose name or short name is the given one
  (\<^verbatim>\<open>LIMIT 1\<close>, in the order of the table), None when there is none or no name is given.
\<close>

definition resolve_team_id :: "world \<Rightarrow> json \<Rightarrow> int option" where
  "resolve_team_id w team_name =
     (if \<not> truthy team_name then None
      else (case filter (\<lambda>r. t_name r = team_name \<or> t_short_name r = team_name) (teams w) of
              [] \<Rightarrow> None
            | row # _ \<Rightarrow> Some (t_team_id row)))"

text \<open>
  The nested helpers. \<^verbatim>\<open>safe_int(val)\<close> has the default 0 and \<open>safe_int_none\<close> is the
  call \<^verbatim>\<open>safe_int(val, None)\<close>. \<^verbatim>\<open>float(val)\<close> takes numbers as they are and parses a
  string; an \<^verbatim>\<open>int\<close> too large for a double is not modelled.
\<close>

definition safe_int :: "json \<Rightarrow> int \<Rightarrow> int" where
  "safe_int val dflt = (case py_int val of Inr n \<Rightarrow> n | Inl e \<Rightarrow> dflt)"

definition safe_int_none :: "json \<Rightarrow> int option" where
  "safe_int_none val = (case py_int val of Inr n \<Rightarrow> Some n | Inl e \<Rightarrow> None)"

fun py_float :: "env \<Rightarrow> json \<Rightarrow> exn + pyfloat" where
  "py_float E (JInt n) = Inr (Finite (of_int n))"
| "py_float E (JBool b) = Inr (Finite (if b then 1 else 0))"
| "py_float E (JFloat f s) = Inr f"
| "py_float E (JStr s) = (case float_of_str E s of Some f \<Rightarrow> Inr f | None \<Rightarrow> Inl ValueError)"
| "py_float E _ = Inl TypeError"

definition safe_float :: "env \<Rightarrow> json \<Rightarrow> pyfloat option \<Rightarrow> pyfloat option" where
  "safe_float E val dflt = (case py_float E val of Inr f \<Rightarrow> Some f | Inl e \<Rightarrow> dflt)"

text \<open>
  \<^verbatim>\<open>round(x, 2)\<close> on a finite float: the nearest multiple of 1/100, a tie going to the
  even one. Floats being rationals here, \<^verbatim>\<open>(runs / balls) * 100\<close> is computed exactly.
\<close>

definition round_half_even :: "rat \<Rightarrow> int" where
  "round_half_even x =
     (let f = \<lfloor>x\<rfloor>; d = x - of_int f
      in if d < 1 / 2 then f else if d > 1 / 2 then f + 1 else if even f then f else f + 1)"

definition py_round2 :: "rat \<Rightarrow> rat" where
  "py_round2 x = of_int (round_half_even (x * 100)) / 100"

text \<open>\<^verbatim>\<open>s.lower()\<close> on ASCII.\<close>

definition lower_char :: "char \<Rightarrow> char" where
  "lower_char c =
     (if 65 \<le> (of_char c :: nat) \<and> (of_char c :: nat) \<le> 90 then char_of ((of_char c :: nat) + 32)
      else c)"

text \<open>
  The out / not out detection: \<open>Inr None\<close> is \<^verbatim>\<open>is_out = None\<close>; \<^verbatim>\<open>.lower()\<close> raises
  when \<^verbatim>\<open>outDesc\<close> is a truthy value that is no string.
\<close>

definition is_out_of :: "json \<Rightarrow> exn + int option" where
  "is_out_of b =
     (case b of
        JDict kvs \<Rightarrow>
          (case map_of kvs ''isOut'' of
             Some v \<Rightarrow> Inr (Some (if truthy v then 1 else 0))
           | None \<Rightarrow>
               (case py_or (case map_of kvs ''outDesc'' of Some v \<Rightarrow> v | None \<Rightarrow> JNull) (JStr []) of
                  JStr s \<Rightarrow>
                    (let out_desc = map lower_char s
                     in Inr (if is_substring ''not out'' out_desc then Some 0
                             else if out_desc \<noteq> [] then Some 1 else None))
                | _ \<Rightarrow> Inl AttributeError))
      | _ \<Rightarrow> Inl TypeError)"

text \<open>
  The values the function computes before its one statement, as a row of
  \<^verbatim>\<open>batting_stats\<close>; \<open>Inr None\<close> is the early \<^verbatim>\<open>return\<close> taken when the player
  identifier is 0. The \<^verbatim>\<open>id\<close> column is not given by the statement and gets the next
  \<^verbatim>\<open>AUTO_INCREMENT\<close> value.
\<close>

definition batting_values ::
  "env \<Rightarrow> int \<Rightarrow> int \<Rightarrow> int option \<Rightarrow> json \<Rightarrow> int option \<Rightarrow> world \<Rightarrow> exn + batting_row option" where
  "batting_values E mid innings_no team_id b order w =
     bindE (get_or b [''playerId'', ''id'']) (\<lambda>i.
     bindE (py_int (py_or i (JInt 0))) (\<lambda>pid.
     if pid = 0 then Inr None
     else
       bindE (py_get b ''runs'') (\<lambda>rv.
       bindE (get_or b [''balls'', ''ballsFaced'']) (\<lambda>bv.
       bindE (py_get b ''fours'') (\<lambda>fv.
       bindE (py_get b ''sixes'') (\<lambda>sv.
       bindE (get_or b [''strkrate'', ''strikeRate'', ''sr'']) (\<lambda>srv.
       bindE (py_get b ''teamId'') (\<lambda>tv.
       bindE (get_or b [''teamName'', ''team'']) (\<lambda>team_name.
       bindE (get_or b [''battingOrder'', ''order'']) (\<lambda>ov.
       bindE (is_out_of b) (\<lambda>is_out.
       (let runs = safe_int rv 0;
            balls = safe_int bv 0;
            fours = safe_int fv 0;
            sixes = safe_int sv 0;
            sr0 = safe_float E srv None;
            sr = (if sr0 = None \<and> balls > 0
                  then Some (Finite (py_round2 (of_int runs / of_int balls * 100)))
                  else sr0);
            team_id1 = (if \<not> truthy_int team_id then Some (safe_int tv 0) else team_id);
            team_id2 = (if \<not> truthy_int team_id1 then resolve_team_id w team_name else team_id1);
            pos = (case order of Some k \<Rightarrow> Some k | None \<Rightarrow> safe_int_none ov)
        in Inr (Some \<lparr>bat_id = batting_auto w, bat_match_id = mid, bat_player_id = pid,
                      bat_team_id = team_id2, bat_runs = runs, bat_balls = balls,
                      bat_fours = fours, bat_sixes = sixes, bat_strike_rate = sr,
                      bat_innings_no = innings_no, bat_batting_pos = pos,
                      bat_is_out = is_out\<rparr>)))))))))))))"

text \<open>
  The statement. \<^verbatim>\<open>batting_stats\<close> references \<^verbatim>\<open>matches\<close> and \<^verbatim>\<open>players\<close>; its only
  key is the \<^verbatim>\<open>AUTO_INCREMENT\<close> column \<^verbatim>\<open>id\<close>, so that is the key
  \<^verbatim>\<open>ON DUPLICATE KEY UPDATE\<close> looks at.
\<close>

definition insert_batting :: "batting_row \<Rightarrow> world \<Rightarrow> (exn + unit) \<times> world" where
  "insert_batting new w =
     (if bat_match_id new \<notin> set (map m_match_id (matches w)) \<or>
         bat_player_id new \<notin> set (map p_player_id (players w))
      then (Inl IntegrityError, w)
      else (Inr (),
            w\<lparr>batting_stats := on_duplicate_key_update (\<lambda>r. bat_id r = bat_id new)
                 (\<lambda>r. r\<lparr>bat_runs := bat_runs new, bat_balls := bat_balls new,
                         bat_fours := bat_fours new, bat_sixes := bat_sixes new,
                         bat_strike_rate := bat_strike_rate new,
                         bat_batting_pos := bat_batting_pos new, bat_is_out := bat_is_out new\<rparr>)
                 new (batting_stats w),
              batting_auto := batting_auto w + 1\<rparr>))"

definition insert_batting_score ::
  "env \<Rightarrow> int \<Rightarrow> int \<Rightarrow> int option \<Rightarrow> json \<Rightarrow> int option \<Rightarrow> world \<Rightarrow> (exn + unit) \<times> world" where
  "insert_batting_score E mid innings_no team_id b order w =
     (case batting_values E mid innings_no team_id b order w of
        Inl e \<Rightarrow> (Inl e, w)
      | Inr None \<Rightarrow> (Inr (), w)
      | Inr (Some new) \<Rightarrow> insert_batting new w)"


text \<open>A database with one team, one player and one match, and one batting entry.\<close>

definition one_match_world :: world where
  "one_match_world =
     empty_world
       \<lparr>teams := [\<lparr>t_team_id = 2, t_name = JStr ''India'', t_short_name = JStr ''IND'',
                   t_country = JStr ''India''\<rparr>],
        players := [\<lparr>p_player_id = 7, p_name = JStr ''A Batter'', p_role = JNull,
                     p_bat_style = JNull, p_bowl_style = JNull, p_team_id = 2,
                     p_country = JNull\<rparr>],
        matches := [\<lparr>m_match_id = 100, m_series_id = None, m_team1_id = Some 2,
                     m_team2_id = None, m_match_date = Some ''2024-01-15'', m_venue_id = None,
                     m_winner_id = None, m_win_margin = JNull, m_victory_type = JNull,
                     m_toss_winner_id = None, m_toss_decision = JNull, m_match_format = JNull,
                     m_description = JNull\<rparr>]\<rparr>"

definition batting_entry :: json where
  "batting_entry = JDict [(''playerId'', JInt 7), (''runs'', JInt 45), (''balls'', JInt 30)]"

subsection \<open>Words of the specification about identifiers\<close>

text \<open>
  A record's identifier under key \<open>k\<close> is absent or zero; and no row of the four entity
  tables has identifier 0.
\<close>

definition absent_or_zero :: "(string \<times> json) list \<Rightarrow> string \<Rightarrow> bool" where
  "absent_or_zero kvs k = (case map_of kvs k of None \<Rightarrow> True | Some v \<Rightarrow> v = JNull \<or> v = JInt 0)"

definition no_zero_ids :: "world \<Rightarrow> bool" where
  "no_zero_ids w =
     (0 \<notin> set (map t_team_id (teams w)) \<and> 0 \<notin> set (map p_player_id (players w)) \<and>
      0 \<notin> set (map s_series_id (series w)) \<and> 0 \<notin> set (map m_match_id (matches w)))"


subsection \<open>The stored capacity of a venue\<close>

text \<open>
  What \<^verbatim>\<open>SELECT capacity FROM venues\<close> gives under the \<^verbatim>\<open>WHERE\<close> clause of
  \<^verbatim>\<open>get_or_create_venue\<close>: None when no row is stored under (name, city, country),
  otherwise the capacity column of the first such row, which may be \<^verbatim>\<open>NULL\<close>.
\<close>

definition stored_capacity :: "json \<Rightarrow> json \<Rightarrow> json \<Rightarrow> world \<Rightarrow> int option option" where
  "stored_capacity name city country w =
     (case filter (\<lambda>r. v_name r = name \<and> coalesce (v_city r) = coalesce city \<and>
                         coalesce (v_country r) = coalesce country) (venues w) of
        [] \<Rightarrow> None
      | row # _ \<Rightarrow> Some (v_capacity row))"

text \<open>One ground: ingested with a capacity into a database.\<close>

definition eden_gardens :: "json \<Rightarrow> world \<Rightarrow> world" where
  "eden_gardens capacity w =
     snd (get_or_create_venue (JStr ''Eden Gardens'') (JStr ''Kolkata'') (JStr ''India'') capacity w)"

definition eden_gardens_capacity :: "world \<Rightarrow> int option option" where
  "eden_gardens_capacity w =
     stored_capacity (JStr ''Eden Gardens'') (JStr ''Kolkata'') (JStr ''India'') w"


text \<open>
  Two payloads for match 100, with both teams, the winner, the toss and the result, so
  that the match centre is not asked: one with a match date, one without.
\<close>

definition match_payload :: "(string \<times> json) list \<Rightarrow> json" where
  "match_payload extra =
     JDict ([(''matchId'', JInt 100),
             (''team1'', JDict [(''teamId'', JInt 2), (''teamName'', JStr ''India'')]),
             (''team2'', JDict [(''teamId'', JInt 3), (''teamName'', JStr ''Australia'')]),
             (''winnerTeamId'', JInt 2),
             (''tossResults'', JDict [(''tossWinnerId'', JInt 2), (''decision'', JStr ''bat'')]),
             (''result'', JDict [(''resultMargin'', JInt 5), (''resultType'', JStr ''wickets'')])]
            @ extra)"

text \<open>The row stored for a match.\<close>

definition stored_match :: "int \<Rightarrow> world \<Rightarrow> match_row option" where
  "stored_match mid w = find (\<lambda>r. m_match_id r = mid) (matches w)"


section \<open>Properties\<close>

lemma derive_loop_carry:
  "derive_loop bs ps [prev] 0 0 =
     (case batting_order bs of Inl e \<Rightarrow> Inl e | Inr xs \<Rightarrow> Inr (ps @ later_pairs prev xs))"
proof (induction bs arbitrary: ps prev)
  case Nil
  then show ?case by simp
next
  case (Cons b bs)
  show ?case
  proof (cases "batsman_fields b")
    case (Inl e)
    then show ?thesis by simp
  next
    case (Inr x)
    obtain pid runs balls where x: "x = (pid, runs, balls)"
      by (cases x) auto
    show ?thesis
      using Cons.IH [of "ps @ [mk_partnership prev pid runs balls]" pid]
      by (simp add: Inr x mk_partnership_def split: sum.splits)
  qed
qed

text \<open>
  C3. For every list of batsmen the derived partnerships are those of the specification:
  the first pair is (batsman 1, batsman 2) with the sum of their runs and balls, each later
  pair is made of the previous pair's second member and the next batsman and, the
  accumulator having been reset, carries that batsman's runs and balls only; each pair is
  the record \<^verbatim>\<open>{player1Id, player2Id, runs, balls}\<close>. With fewer than two batsmen there
  is no pair. When an entry cannot be read the function raises the error of the first such
  entry and returns no pair at all.
\<close>

theorem derive_partnerships_refines_spec:
  "derive_partnerships_from_batsmen batsmen =
     (case batting_order batsmen of Inl e \<Rightarrow> Inl e | Inr xs \<Rightarrow> Inr (spec_partnerships xs))"
proof (cases batsmen)
  case Nil
  then show ?thesis by (simp add: derive_partnerships_from_batsmen_def)
next
  case (Cons b bs)
  show ?thesis
  proof (cases "batsman_fields b")
    case (Inl e)
    with Cons show ?thesis by (simp add: derive_partnerships_from_batsmen_def)
  next
    case (Inr x)
    obtain p1 r1 b1 where x: "x = (p1, r1, b1)"
      by (cases x) auto
    show ?thesis
    proof (cases bs)
      case Nil
      with Cons Inr x show ?thesis
        by (simp add: derive_partnerships_from_batsmen_def)
    next
      case (Cons c cs)
      show ?thesis
      proof (cases "batsman_fields c")
        case (Inl e)
        with \<open>batsmen = b # bs\<close> Cons Inr x show ?thesis
          by (simp add: derive_partnerships_from_batsmen_def)
      next
        case (Inr y)
        obtain p2 r2 b2 where y: "y = (p2, r2, b2)"
          by (cases y) auto
        from \<open>batsmen = b # bs\<close> Cons \<open>batsman_fields b = Inr x\<close> Inr x y
          derive_loop_carry [of cs "[mk_partnership p1 p2 (r1 + r2) (b1 + b2)]" p2]
        show ?thesis
          by (simp add: derive_partnerships_from_batsmen_def mk_partnership_def split: sum.splits)
      qed
    qed
  qed
qed

theorem derive_partnerships_four_batsmen:
  "derive_partnerships_from_batsmen
     [batsman 1 30 40, batsman 2 20 30, batsman 3 10 20, batsman 4 5 10] =
     Inr [JDict [(''player1Id'', JInt 1), (''player2Id'', JInt 2), (''runs'', JInt 50), (''balls'', JInt 70)],
          JDict [(''player1Id'', JInt 2), (''player2Id'', JInt 3), (''runs'', JInt 10), (''balls'', JInt 20)],
          JDict [(''player1Id'', JInt 3), (''player2Id'', JInt 4), (''runs'', JInt 5), (''balls'', JInt 10)]] \<and>
   derive_partnerships_from_batsmen [batsman 1 30 40] = Inr [] \<and>
   derive_partnerships_from_batsmen
     [batsman 1 30 40, JDict [(''id'', JInt 2), (''runs'', JStr ''twenty'')], batsman 3 10 20] =
     Inl ValueError \<and>
   derive_partnerships_from_batsmen [batsman 1 30 40, JInt 2] = Inl AttributeError"
proof -
  have v: "int_of_str ''twenty'' = None"
    by code_simp
  show ?thesis
    using derive_partnerships_refines_spec
            [of "[batsman 1 30 40, batsman 2 20 30, batsman 3 10 20, batsman 4 5 10]"]
          derive_partnerships_refines_spec [of "[batsman 1 30 40]"]
          derive_partnerships_refines_spec
            [of "[batsman 1 30 40, JDict [(''id'', JInt 2), (''runs'', JStr ''twenty'')], batsman 3 10 20]"]
          derive_partnerships_refines_spec [of "[batsman 1 30 40, JInt 2]"]
    by (simp add: batsman_fields_def batsman_def bindE_def py_get_def py_or_def v)
qed

subsection \<open>Date normalisation\<close>

lemma digit_not_space: "is_digit c \<Longrightarrow> \<not> is_space c"
  by (auto simp: is_digit_def is_space_def)

lemma digits_val_all:
  "list_all is_digit s \<Longrightarrow> digits_val acc s = Some (foldl (\<lambda>a c. a * 10 + digit_val c) acc s)"
  by (induction s arbitrary: acc) auto

lemma py_strip_digits: "py_isdigit s \<Longrightarrow> py_strip s = s"
proof -
  assume h: "py_isdigit s"
  then have ne: "s \<noteq> []" and all: "list_all is_digit s"
    by (auto simp: py_isdigit_def)
  from ne all have "is_digit (hd s)" and "is_digit (last s)"
    by (auto simp: list_all_iff)
  then have a: "\<not> is_space (hd s)" and b: "\<not> is_space (last s)"
    by (auto dest: digit_not_space)
  from a have 1: "dropWhile is_space s = s"
    by (simp add: dropWhile_eq_self_iff)
  from b ne have 2: "dropWhile is_space (rev s) = rev s"
    by (simp add: dropWhile_eq_self_iff hd_rev)
  show ?thesis by (simp add: py_strip_def 1 2)
qed

lemma int_of_str_digits: "py_isdigit s \<Longrightarrow> int_of_str s = Some (decimal_value s)"
proof -
  assume h: "py_isdigit s"
  then obtain c cs where s: "s = c # cs" and c: "is_digit c" and cs: "list_all is_digit cs"
    by (cases s) (auto simp: py_isdigit_def)
  from c have nm: "c \<noteq> CHR ''-''" and np: "c \<noteq> CHR ''+''"
    by (auto simp: is_digit_def)
  show ?thesis
    using py_strip_digits [OF h] nm np c digits_val_all [OF cs, of "digit_val c"]
    by (simp add: int_of_str_def s unsigned_val_def decimal_value_def)
qed

lemma digits_not_iso:
  "py_isdigit s \<Longrightarrow> \<not> (length s \<ge> 10 \<and> s ! 4 = CHR ''-'' \<and> s ! 7 = CHR ''-'')"
proof
  assume h: "py_isdigit s" and iso: "length s \<ge> 10 \<and> s ! 4 = CHR ''-'' \<and> s ! 7 = CHR ''-''"
  from h have all: "\<forall>n<length s. is_digit (s ! n)"
    by (simp add: py_isdigit_def list_all_length)
  from iso have "4 < length s" by simp
  with all have "is_digit (s ! 4)" by blast
  moreover from iso have "s ! 4 = CHR ''-''" by simp
  ultimately have "is_digit CHR ''-''" by simp
  then show False by (simp add: is_digit_def)
qed

text \<open>
  What \<^verbatim>\<open>_to_date\<close> does, branch by branch. It never raises and returns a string or null:
  null gives null; an integer above 10,000,000,000 is read as epoch milliseconds
  (floor-divided by 1000) and one at or below it as epoch seconds, and the result is what
  \<^verbatim>\<open>strftime("%Y-%m-%d", gmtime(x))\<close> prints, or null when that raises; a bool counts as
  the integer 1 or 0; a float is cut towards zero and then treated as that integer, and an
  infinity or NaN gives null; a string of at least ten characters with dashes at positions
  4 and 7 is cut to its first ten characters; an all-digit string is treated as the integer
  it denotes; every other string gives null; a list or a dict is first turned into text by
  \<^verbatim>\<open>str\<close>.
\<close>

lemma to_date_dispatch:
  "to_date E JNull = None \<and>
   to_date E (JInt n) =
     (case strftime_gmtime E (if n > 10000000000 then n div 1000 else n) of
        Inr d \<Rightarrow> Some d | Inl e \<Rightarrow> None) \<and>
   to_date E (JBool b) = to_date E (JInt (if b then 1 else 0)) \<and>
   to_date E (JFloat (Finite q) r) = to_date E (JInt (py_trunc q)) \<and>
   to_date E (JFloat PosInf r) = None \<and>
   to_date E (JFloat NegInf r) = None \<and>
   to_date E (JFloat NaN r) = None \<and>
   (length s \<ge> 10 \<and> s ! 4 = CHR ''-'' \<and> s ! 7 = CHR ''-'' \<longrightarrow>
      to_date E (JStr s) = Some (take 10 s)) \<and>
   (py_isdigit s \<longrightarrow> to_date E (JStr s) = to_date E (JInt (decimal_value s))) \<and>
   (\<not> (length s \<ge> 10 \<and> s ! 4 = CHR ''-'' \<and> s ! 7 = CHR ''-'') \<and> \<not> py_isdigit s \<longrightarrow>
      to_date E (JStr s) = None) \<and>
   to_date E (JList xs) = to_date E (JStr (py_str (JList xs))) \<and>
   to_date E (JDict kvs) = to_date E (JStr (py_str (JDict kvs)))"
proof -
  have null: "to_date E JNull = None"
    by (simp add: to_date_def)
  have num: "to_date E (JInt n) =
     (case strftime_gmtime E (if n > 10000000000 then n div 1000 else n) of
        Inr d \<Rightarrow> Some d | Inl e \<Rightarrow> None)"
    by (simp add: to_date_def to_date_try_def epoch_seconds_def bindE_def split: sum.splits)
  have bool: "to_date E (JBool b) = to_date E (JInt (if b then 1 else 0))"
    by (simp add: to_date_def to_date_try_def)
  have flt: "to_date E (JFloat (Finite q) r) = to_date E (JInt (py_trunc q))"
    by (simp add: to_date_def to_date_try_def)
  have inf: "to_date E (JFloat PosInf r) = None" "to_date E (JFloat NegInf r) = None"
    "to_date E (JFloat NaN r) = None"
    by (simp_all add: to_date_def to_date_try_def bindE_def)
  have iso: "length s \<ge> 10 \<and> s ! 4 = CHR ''-'' \<and> s ! 7 = CHR ''-'' \<longrightarrow>
      to_date E (JStr s) = Some (take 10 s)"
    by (simp add: to_date_def to_date_try_def)
  have dig: "py_isdigit s \<longrightarrow> to_date E (JStr s) = to_date E (JInt (decimal_value s))"
  proof
    assume h: "py_isdigit s"
    show "to_date E (JStr s) = to_date E (JInt (decimal_value s))"
      using digits_not_iso [OF h] int_of_str_digits [OF h] h
      by (auto simp: to_date_def to_date_try_def bindE_def)
  qed
  have other: "\<not> (length s \<ge> 10 \<and> s ! 4 = CHR ''-'' \<and> s ! 7 = CHR ''-'') \<and> \<not> py_isdigit s \<longrightarrow>
      to_date E (JStr s) = None"
    by (simp add: to_date_def to_date_try_def)
  have lst: "to_date E (JList xs) = to_date E (JStr (py_str (JList xs)))"
    by (simp add: to_date_def to_date_try_def)
  have dct: "to_date E (JDict kvs) = to_date E (JStr (py_str (JDict kvs)))"
    by (simp add: to_date_def to_date_try_def)
  from null num bool flt inf iso dig other lst dct show ?thesis by blast
qed

lemma to_date_dispatch_examples:
  "to_date example_env (JInt 1700000000000) = Some ''2023-11-14'' \<and>
   to_date example_env (JInt 10000000000) = Some ''2286-11-20'' \<and>
   to_date example_env (JFloat (Finite (17000000005 / 10)) ''1700000000.5'') = Some ''2023-11-14'' \<and>
   to_date example_env (JStr ''2024-01-15T10:00:00Z'') = Some ''2024-01-15'' \<and>
   to_date example_env (JStr ''1700000000'') = Some ''2023-11-14'' \<and>
   to_date example_env (JStr ''tomorrow'') = None"
  by code_simp

text \<open>
  C8. The docstring of \<^verbatim>\<open>_to_date\<close> promises \<^verbatim>\<open>'YYYY-MM-DD' or None\<close>, and the callers
  rely on it (\<^verbatim>\<open>int(start_dt[:4])\<close>, the \<^verbatim>\<open>DATE\<close> columns). The code breaks the promise:
  the branch for ISO-like strings tests the two dashes only, so the twelve characters
  \<^verbatim>\<open>abcd-ef-ghij\<close> come back cut to \<^verbatim>\<open>abcd-ef-gh\<close>, which is neither null nor a date of
  the form YYYY-MM-DD.
\<close>

theorem to_date_not_calendar_date:
  "to_date example_env (JStr ''abcd-ef-ghij'') = Some ''abcd-ef-gh'' \<and> \<not> is_ymd ''abcd-ef-gh''"
  by code_simp


subsection \<open>The fetch layer\<close>

lemma api_attempt_fails:
  "server E (http_attempts w) url params = ConnError \<or>
   (\<exists>st b. server E (http_attempts w) url params = Response st b \<and> 400 \<le> st \<and> st < 600) \<Longrightarrow>
   \<exists>w1. api_attempt E url params w = (Inl RequestException, w1) \<and>
        http_attempts w1 = Suc (http_attempts w)"
  by (auto simp: api_attempt_def Let_def)

lemma api_get_loop_all_fail:
  "(\<forall>k. server E k url params = ConnError \<or>
        (\<exists>st b. server E k url params = Response st b \<and> 400 \<le> st \<and> st < 600)) \<Longrightarrow>
   fst (api_get_loop E url params retries backoff attempt w) = JNull \<and>
   http_attempts (snd (api_get_loop E url params retries backoff attempt w)) =
     http_attempts w + nat (retries - attempt) + 1"
proof (induction E url params retries backoff attempt w rule: api_get_loop.induct)
  case (1 E url params retries backoff attempt w)
  from 1(2) have "server E (http_attempts w) url params = ConnError \<or>
   (\<exists>st b. server E (http_attempts w) url params = Response st b \<and> 400 \<le> st \<and> st < 600)"
    by blast
  from api_attempt_fails [OF this] obtain w1 where
    a: "api_attempt E url params w = (Inl RequestException, w1)" and
    h: "http_attempts w1 = Suc (http_attempts w)"
    by blast
  show ?case
  proof (cases "attempt + 1 > retries")
    case True
    then show ?thesis
      using a h by (simp add: api_get_loop.simps [of E url params retries backoff attempt w])
  next
    case False
    from 1(1) [OF a [symmetric] refl refl False refl 1(2)]
    have ih: "fst (api_get_loop E url params retries backoff (attempt + 1)
                 (w1\<lparr>console := console w1 @ [Retrying (backoff * of_int (attempt + 1))],
                     slept := slept w1 @ [backoff * of_int (attempt + 1)]\<rparr>)) = JNull \<and>
              http_attempts (snd (api_get_loop E url params retries backoff (attempt + 1)
                 (w1\<lparr>console := console w1 @ [Retrying (backoff * of_int (attempt + 1))],
                     slept := slept w1 @ [backoff * of_int (attempt + 1)]\<rparr>))) =
              http_attempts w1 + nat (retries - (attempt + 1)) + 1"
      by simp
    from False have "nat (retries - attempt) = Suc (nat (retries - (attempt + 1)))"
      by simp
    with ih h False a show ?thesis
      by (simp add: api_get_loop.simps [of E url params retries backoff attempt w] Let_def)
  qed
qed

text \<open>
  C9. A call of \<^verbatim>\<open>api_get\<close> with the API key unset or empty, or with \<^verbatim>\<open>API_CALLS\<close>
  already at \<^verbatim>\<open>MAX_CALLS\<close>, raises \<^verbatim>\<open>RuntimeError\<close> and leaves the whole state as it
  was: no HTTP attempt, no retry, the counter unchanged. In every other case the call
  returns normally, so these two conditions are the only ones that end it with an error.
\<close>

theorem api_get_fatal_preconditions:
  "(RAPIDAPI_KEY E = None \<or> RAPIDAPI_KEY E = Some [] \<or> API_CALLS w \<ge> MAX_CALLS E \<longrightarrow>
      api_get E url params retries backoff w = (Inl RuntimeError, w)) \<and>
   (\<not> (RAPIDAPI_KEY E = None \<or> RAPIDAPI_KEY E = Some [] \<or> API_CALLS w \<ge> MAX_CALLS E) \<longrightarrow>
      (\<exists>result w'. api_get E url params retries backoff w = (Inr result, w')))"
  by (cases "api_get_loop E url params retries backoff 0 w") (auto simp: api_get_def)

lemma check_rate_limit_keeps:
  "client_attempts (check_rate_limit c) = client_attempts c \<and> shown (check_rate_limit c) = shown c"
  by (simp add: check_rate_limit_def Let_def)


lemma api_get_loop_first_ok:
  "server E (http_attempts w) url params = Response st body \<Longrightarrow> \<not> (400 \<le> st \<and> st < 600) \<Longrightarrow>
   fst (api_get_loop E url params retries backoff attempt w) = (case body of Some j \<Rightarrow> j | None \<Rightarrow> JNull) \<and>
   http_attempts (snd (api_get_loop E url params retries backoff attempt w)) = http_attempts w + 1"
  by (cases body)
     (auto simp: api_get_loop.simps [of E url params retries backoff attempt w]
        api_attempt_def Let_def)

lemma api_get_all_fail:
  assumes "RAPIDAPI_KEY E \<noteq> None" "RAPIDAPI_KEY E \<noteq> Some []" "API_CALLS w < MAX_CALLS E"
    and "\<forall>k. server E k url params = ConnError \<or>
        (\<exists>st b. server E k url params = Response st b \<and> 400 \<le> st \<and> st < 600)"
  shows "fst (api_get E url params retries backoff w) = Inr JNull \<and>
         http_attempts (snd (api_get E url params retries backoff w)) = http_attempts w + nat retries + 1"
  using assms(1-3) api_get_loop_all_fail [OF assms(4), of retries backoff 0 w]
  by (cases "api_get_loop E url params retries backoff 0 w") (simp add: api_get_def)

lemma api_get_first_ok:
  assumes "RAPIDAPI_KEY E \<noteq> None" "RAPIDAPI_KEY E \<noteq> Some []" "API_CALLS w < MAX_CALLS E"
    and "server E (http_attempts w) url params = Response st body" "\<not> (400 \<le> st \<and> st < 600)"
  shows "fst (api_get E url params retries backoff w) = Inr (case body of Some j \<Rightarrow> j | None \<Rightarrow> JNull) \<and>
         http_attempts (snd (api_get E url params retries backoff w)) = http_attempts w + 1"
  using assms(1-3) api_get_loop_first_ok [OF assms(4,5), of retries backoff 0]
  by (cases "api_get_loop E url params retries backoff 0 w") (simp add: api_get_def)

lemma make_api_request_429:
  "server E (client_attempts c) (base_url E @ ''/'' @ endpoint) params = Response 429 b \<Longrightarrow>
   make_api_request E endpoint params c =
     (JNull, (check_rate_limit c)\<lparr>client_attempts := Suc (client_attempts c),
                                  shown := shown c @ [Error_rate_limit endpoint]\<rparr>)"
  using check_rate_limit_keeps [of c] by (simp add: make_api_request_def Let_def)

lemma make_api_request_not_json:
  "server E (client_attempts c) (base_url E @ ''/'' @ endpoint) params = Response st None \<Longrightarrow>
   st < 400 \<Longrightarrow>
   make_api_request E endpoint params c =
     (JNull, (check_rate_limit c)\<lparr>client_attempts := Suc (client_attempts c),
                                  shown := shown c @ [Error_exception endpoint]\<rparr>)"
  using check_rate_limit_keeps [of c] by (simp add: make_api_request_def Let_def)

lemma api_attempt_fails_slept:
  "server E (http_attempts w) url params = ConnError \<or>
   (\<exists>st b. server E (http_attempts w) url params = Response st b \<and> 400 \<le> st \<and> st < 600) \<Longrightarrow>
   \<exists>w1. api_attempt E url params w = (Inl RequestException, w1) \<and> slept w1 = slept w"
  by (auto simp: api_attempt_def Let_def)

lemma api_get_loop_all_fail_slept:
  "(\<forall>k. server E k url params = ConnError \<or>
        (\<exists>st b. server E k url params = Response st b \<and> 400 \<le> st \<and> st < 600)) \<Longrightarrow>
   slept (snd (api_get_loop E url params retries backoff attempt w)) =
     slept w @ map (\<lambda>k. backoff * of_int k) [attempt + 1..retries]"
proof (induction E url params retries backoff attempt w rule: api_get_loop.induct)
  case (1 E url params retries backoff attempt w)
  from 1(2) have "server E (http_attempts w) url params = ConnError \<or>
   (\<exists>st b. server E (http_attempts w) url params = Response st b \<and> 400 \<le> st \<and> st < 600)"
    by blast
  from api_attempt_fails_slept [OF this] obtain w1 where
    a: "api_attempt E url params w = (Inl RequestException, w1)" and
    h: "slept w1 = slept w"
    by blast
  show ?case
  proof (cases "attempt + 1 > retries")
    case True
    then show ?thesis
      using a h by (simp add: api_get_loop.simps [of E url params retries backoff attempt w])
  next
    case False
    from 1(1) [OF a [symmetric] refl refl False refl 1(2)]
    have ih: "slept (snd (api_get_loop E url params retries backoff (attempt + 1)
                 (w1\<lparr>console := console w1 @ [Retrying (backoff * of_int (attempt + 1))],
                     slept := slept w1 @ [backoff * of_int (attempt + 1)]\<rparr>))) =
              slept w1 @ [backoff * of_int (attempt + 1)] @
                map (\<lambda>k. backoff * of_int k) [attempt + 1 + 1..retries]"
      by simp
    from False have u: "[attempt + 1..retries] = (attempt + 1) # [attempt + 1 + 1..retries]"
      by (simp add: upto_rec1)
    from ih h False a show ?thesis
      by (simp add: api_get_loop.simps [of E url params retries backoff attempt w] Let_def u)
  qed
qed

lemma api_get_loop_first_ok_slept:
  "server E (http_attempts w) url params = Response st body \<Longrightarrow> \<not> (400 \<le> st \<and> st < 600) \<Longrightarrow>
   slept (snd (api_get_loop E url params retries backoff attempt w)) = slept w"
  by (cases body)
     (auto simp: api_get_loop.simps [of E url params retries backoff attempt w]
        api_attempt_def Let_def)

lemma api_get_all_fail_slept:
  assumes "RAPIDAPI_KEY E \<noteq> None" "RAPIDAPI_KEY E \<noteq> Some []" "API_CALLS w < MAX_CALLS E"
    and "\<forall>k. server E k url params = ConnError \<or>
        (\<exists>st b. server E k url params = Response st b \<and> 400 \<le> st \<and> st < 600)"
  shows "slept (snd (api_get E url params retries backoff w)) =
           slept w @ map (\<lambda>k. backoff * of_int k) [1..retries]"
  using assms(1-3) api_get_loop_all_fail_slept [OF assms(4), of retries backoff 0 w]
  by (cases "api_get_loop E url params retries backoff 0 w") (auto simp: api_get_def)

lemma api_get_first_ok_slept:
  assumes "RAPIDAPI_KEY E \<noteq> None" "RAPIDAPI_KEY E \<noteq> Some []" "API_CALLS w < MAX_CALLS E"
    and "server E (http_attempts w) url params = Response st body" "\<not> (400 \<le> st \<and> st < 600)"
  shows "slept (snd (api_get E url params retries backoff w)) = slept w"
  using assms(1-3) api_get_loop_first_ok_slept [OF assms(4,5), of retries backoff 0]
  by (cases "api_get_loop E url params retries backoff 0 w") (auto simp: api_get_def)

lemma live_check_rate_limit_keeps:
  "lm_requests (live_check_rate_limit p) = lm_requests p"
  by (simp add: live_check_rate_limit_def Let_def split: option.splits)

lemma get_api_headers_ok:
  "RAPIDAPI_KEY E = Some key \<Longrightarrow> key \<noteq> [] \<Longrightarrow> RAPIDAPI_HOST E = Some host \<Longrightarrow> host \<noteq> [] \<Longrightarrow>
   get_api_headers E p =
     (Some (JDict [(''X-RapidAPI-Key'', JStr key), (''X-RapidAPI-Host'', JStr host)]), p)"
  by (simp add: get_api_headers_def)

lemma get_matches_got:
  assumes "RAPIDAPI_KEY E = Some key" "key \<noteq> []" "RAPIDAPI_HOST E = Some host" "host \<noteq> []"
    and "requests_get E (lm_requests p) (base_url E @ ''/matches/v1/'' @ match_type) = Got r"
  shows "lm_requests (snd (get_matches E match_type p)) = lm_requests p + 1"
    and "r_status_code r = 429 \<Longrightarrow>
           fst (get_matches E match_type p) =
             JDict [(''error'', JStr ''rate_limit''),
                    (''message'', JStr (''API Rate Limit Exceeded (429). Response: '' @ r_text r)),
                    (''status_code'', JInt 429)]"
    and "r_status_code r \<noteq> 429 \<Longrightarrow> r_text r = [] \<Longrightarrow>
           fst (get_matches E match_type p) =
             JDict [(''error'', JStr ''empty_response''),
                    (''message'', JStr ''API returned empty response''),
                    (''status_code'', JInt (int (r_status_code r)))]"
    and "r_status_code r \<noteq> 429 \<Longrightarrow> r_text r \<noteq> [] \<Longrightarrow> r_json r = Inl e \<Longrightarrow>
           fst (get_matches E match_type p) =
             JDict [(''error'', JStr ''invalid_json''),
                    (''message'', JStr (''API returned non-JSON response. Status: '' @
                       str_of_nat (r_status_code r) @ '', Content: '' @ take 100 (r_text r))),
                    (''status_code'', JInt (int (r_status_code r)))]"
  using assms live_check_rate_limit_keeps [of p]
  by (simp_all add: get_matches_def get_api_headers_ok [OF assms(1-4)] Let_def split: sum.splits)

lemma get_detailed_scorecard_got:
  assumes "RAPIDAPI_KEY E = Some key" "key \<noteq> []" "RAPIDAPI_HOST E = Some host" "host \<noteq> []"
    and "requests_get E (lm_requests p) (base_url E @ ''/mcenter/v1/'' @ py_str match_id @ ''/scard'') = Got r"
  shows "lm_requests (snd (get_detailed_scorecard E match_id p)) = lm_requests p + 1"
    and "r_status_code r = 429 \<Longrightarrow>
           fst (get_detailed_scorecard E match_id p) =
             JDict [(''error'', JStr ''rate_limit''),
                    (''message'', JStr (''API Rate Limit Exceeded (429). Response: '' @ r_text r))]"
    and "r_status_code r \<noteq> 429 \<Longrightarrow> r_text r = [] \<Longrightarrow>
           fst (get_detailed_scorecard E match_id p) =
             JDict [(''error'', JStr ''empty_response''),
                    (''message'', JStr ''API returned empty response'')]"
    and "r_status_code r < 400 \<Longrightarrow> r_text r \<noteq> [] \<Longrightarrow> r_json r = Inl e \<Longrightarrow>
           fst (get_detailed_scorecard E match_id p) =
             JDict [(''error'', JStr ''error''), (''message'', JStr (''Error: '' @ e))]"
  using assms live_check_rate_limit_keeps [of p]
  by (simp_all add: get_detailed_scorecard_def get_api_headers_ok [OF assms(1-4)] Let_def split: sum.splits)


text \<open>
  C4, as the code has it. With the key and the host configured, a request answered with
  status 429 is tagged and not retried by the two fetchers of the Live Matches page:
  \<^verbatim>\<open>get_matches\<close> and \<^verbatim>\<open>get_detailed_scorecard\<close> make one request and return a record
  whose \<^verbatim>\<open>error\<close> is \<^verbatim>\<open>rate_limit\<close>, where an empty body gives \<^verbatim>\<open>empty_response\<close> and
  a body that is not JSON gives \<^verbatim>\<open>invalid_json\<close> (\<^verbatim>\<open>error\<close> for the scorecard). The other
  two fetchers do not tag. When every attempt is answered with 429, \<^verbatim>\<open>api_get\<close> retries
  as for any request error: it makes \<open>nat retries + 1\<close> attempts, pauses
  \<open>backoff * k\<close> after the \<open>k\<close>-th failure for \<open>k\<close> from 1 to \<open>retries\<close>, and returns
  None, which it also returns, after one attempt and no pause, for a response below 400
  whose body is not JSON. The client of \<^verbatim>\<open>utils/api_client.py\<close> does not retry a 429 and
  shows a message of its own for it, but returns None as it does for a body that is not
  JSON.
\<close>

theorem rate_limit_tag_and_retry:
  assumes "RAPIDAPI_KEY E = Some key" "key \<noteq> []" "RAPIDAPI_HOST E = Some host" "host \<noteq> []"
    and "API_CALLS w < MAX_CALLS E"
  shows
  "(requests_get E (lm_requests p) (base_url E @ ''/matches/v1/'' @ match_type) = Got r \<longrightarrow>
      lm_requests (snd (get_matches E match_type p)) = lm_requests p + 1 \<and>
      (r_status_code r = 429 \<longrightarrow>
         fst (get_matches E match_type p) =
           JDict [(''error'', JStr ''rate_limit''),
                  (''message'', JStr (''API Rate Limit Exceeded (429). Response: '' @ r_text r)),
                  (''status_code'', JInt 429)]) \<and>
      (r_status_code r \<noteq> 429 \<and> r_text r = [] \<longrightarrow>
         fst (get_matches E match_type p) =
           JDict [(''error'', JStr ''empty_response''),
                  (''message'', JStr ''API returned empty response''),
                  (''status_code'', JInt (int (r_status_code r)))]) \<and>
      (r_status_code r \<noteq> 429 \<and> r_text r \<noteq> [] \<and> r_json r = Inl e \<longrightarrow>
         fst (get_matches E match_type p) =
           JDict [(''error'', JStr ''invalid_json''),
                  (''message'', JStr (''API returned non-JSON response. Status: '' @
                     str_of_nat (r_status_code r) @ '', Content: '' @ take 100 (r_text r))),
                  (''status_code'', JInt (int (r_status_code r)))])) \<and>
   (requests_get E (lm_requests p) (base_url E @ ''/mcenter/v1/'' @ py_str match_id @ ''/scard'') = Got r \<longrightarrow>
      lm_requests (snd (get_detailed_scorecard E match_id p)) = lm_requests p + 1 \<and>
      (r_status_code r = 429 \<longrightarrow>
         fst (get_detailed_scorecard E match_id p) =
           JDict [(''error'', JStr ''rate_limit''),
                  (''message'', JStr (''API Rate Limit Exceeded (429). Response: '' @ r_text r))]) \<and>
      (r_status_code r \<noteq> 429 \<and> r_text r = [] \<longrightarrow>
         fst (get_detailed_scorecard E match_id p) =
           JDict [(''error'', JStr ''empty_response''),
                  (''message'', JStr ''API returned empty response'')]) \<and>
      (r_status_code r < 400 \<and> r_text r \<noteq> [] \<and> r_json r = Inl e \<longrightarrow>
         fst (get_detailed_scorecard E match_id p) =
           JDict [(''error'', JStr ''error''), (''message'', JStr (''Error: '' @ e))])) \<and>
   ((\<forall>k. \<exists>b. server E k url params = Response 429 b) \<longrightarrow>
      fst (api_get E url params retries backoff w) = Inr JNull \<and>
      http_attempts (snd (api_get E url params retries backoff w)) = http_attempts w + nat retries + 1 \<and>
      slept (snd (api_get E url params retries backoff w)) =
        slept w @ map (\<lambda>k. backoff * of_int k) [1..retries]) \<and>
   ((\<exists>st. server E (http_attempts w) url params = Response st None \<and> st < 400) \<longrightarrow>
      fst (api_get E url params retries backoff w) = Inr JNull \<and>
      http_attempts (snd (api_get E url params retries backoff w)) = http_attempts w + 1 \<and>
      slept (snd (api_get E url params retries backoff w)) = slept w) \<and>
   ((\<exists>b. server E (client_attempts c) (base_url E @ ''/'' @ endpoint) params = Response 429 b) \<longrightarrow>
      make_api_request E endpoint params c =
        (JNull, (check_rate_limit c)\<lparr>client_attempts := Suc (client_attempts c),
                                     shown := shown c @ [Error_rate_limit endpoint]\<rparr>)) \<and>
   ((\<exists>st. server E (client_attempts c) (base_url E @ ''/'' @ endpoint) params = Response st None \<and> st < 400) \<longrightarrow>
      make_api_request E endpoint params c =
        (JNull, (check_rate_limit c)\<lparr>client_attempts := Suc (client_attempts c),
                                     shown := shown c @ [Error_exception endpoint]\<rparr>))"
proof -
  from assms(1,2) have k: "RAPIDAPI_KEY E \<noteq> None" "RAPIDAPI_KEY E \<noteq> Some []"
    by auto
  note lim = assms(5)
  have gm: "requests_get E (lm_requests p) (base_url E @ ''/matches/v1/'' @ match_type) = Got r \<longrightarrow>
      lm_requests (snd (get_matches E match_type p)) = lm_requests p + 1 \<and>
      (r_status_code r = 429 \<longrightarrow>
         fst (get_matches E match_type p) =
           JDict [(''error'', JStr ''rate_limit''),
                  (''message'', JStr (''API Rate Limit Exceeded (429). Response: '' @ r_text r)),
                  (''status_code'', JInt 429)]) \<and>
      (r_status_code r \<noteq> 429 \<and> r_text r = [] \<longrightarrow>
         fst (get_matches E match_type p) =
           JDict [(''error'', JStr ''empty_response''),
                  (''message'', JStr ''API returned empty response''),
                  (''status_code'', JInt (int (r_status_code r)))]) \<and>
      (r_status_code r \<noteq> 429 \<and> r_text r \<noteq> [] \<and> r_json r = Inl e \<longrightarrow>
         fst (get_matches E match_type p) =
           JDict [(''error'', JStr ''invalid_json''),
                  (''message'', JStr (''API returned non-JSON response. Status: '' @
                     str_of_nat (r_status_code r) @ '', Content: '' @ take 100 (r_text r))),
                  (''status_code'', JInt (int (r_status_code r)))])"
    using get_matches_got [OF assms(1-4)] by blast
  have gs: "requests_get E (lm_requests p) (base_url E @ ''/mcenter/v1/'' @ py_str match_id @ ''/scard'') = Got r \<longrightarrow>
      lm_requests (snd (get_detailed_scorecard E match_id p)) = lm_requests p + 1 \<and>
      (r_status_code r = 429 \<longrightarrow>
         fst (get_detailed_scorecard E match_id p) =
           JDict [(''error'', JStr ''rate_limit''),
                  (''message'', JStr (''API Rate Limit Exceeded (429). Response: '' @ r_text r))]) \<and>
      (r_status_code r \<noteq> 429 \<and> r_text r = [] \<longrightarrow>
         fst (get_detailed_scorecard E match_id p) =
           JDict [(''error'', JStr ''empty_response''),
                  (''message'', JStr ''API returned empty response'')]) \<and>
      (r_status_code r < 400 \<and> r_text r \<noteq> [] \<and> r_json r = Inl e \<longrightarrow>
         fst (get_detailed_scorecard E match_id p) =
           JDict [(''error'', JStr ''error''), (''message'', JStr (''Error: '' @ e))])"
    using get_detailed_scorecard_got [OF assms(1-4)] by blast
  have a: "(\<forall>k. \<exists>b. server E k url params = Response 429 b) \<longrightarrow>
      fst (api_get E url params retries backoff w) = Inr JNull \<and>
      http_attempts (snd (api_get E url params retries backoff w)) = http_attempts w + nat retries + 1 \<and>
      slept (snd (api_get E url params retries backoff w)) =
        slept w @ map (\<lambda>k. backoff * of_int k) [1..retries]"
  proof
    assume h: "\<forall>k. \<exists>b. server E k url params = Response 429 b"
    have f: "\<forall>k. server E k url params = ConnError \<or>
        (\<exists>st b. server E k url params = Response st b \<and> 400 \<le> st \<and> st < 600)"
    proof
      fix k
      from h obtain b where "server E k url params = Response 429 b" by blast
      then show "server E k url params = ConnError \<or>
        (\<exists>st b. server E k url params = Response st b \<and> 400 \<le> st \<and> st < 600)"
        by simp
    qed
    from api_get_all_fail [OF k lim f, of retries backoff]
      api_get_all_fail_slept [OF k lim f, of retries backoff]
    show "fst (api_get E url params retries backoff w) = Inr JNull \<and>
      http_attempts (snd (api_get E url params retries backoff w)) = http_attempts w + nat retries + 1 \<and>
      slept (snd (api_get E url params retries backoff w)) =
        slept w @ map (\<lambda>k. backoff * of_int k) [1..retries]"
      by blast
  qed
  have b: "(\<exists>st. server E (http_attempts w) url params = Response st None \<and> st < 400) \<longrightarrow>
      fst (api_get E url params retries backoff w) = Inr JNull \<and>
      http_attempts (snd (api_get E url params retries backoff w)) = http_attempts w + 1 \<and>
      slept (snd (api_get E url params retries backoff w)) = slept w"
  proof
    assume "\<exists>st. server E (http_attempts w) url params = Response st None \<and> st < 400"
    then obtain st where s: "server E (http_attempts w) url params = Response st None" and lt: "st < 400"
      by blast
    from lt have n: "\<not> (400 \<le> st \<and> st < 600)" by simp
    from api_get_first_ok [OF k lim s n, of retries backoff]
      api_get_first_ok_slept [OF k lim s n, of retries backoff]
    show "fst (api_get E url params retries backoff w) = Inr JNull \<and>
      http_attempts (snd (api_get E url params retries backoff w)) = http_attempts w + 1 \<and>
      slept (snd (api_get E url params retries backoff w)) = slept w"
      by simp
  qed
  have c1: "(\<exists>b. server E (client_attempts c) (base_url E @ ''/'' @ endpoint) params = Response 429 b) \<longrightarrow>
      make_api_request E endpoint params c =
        (JNull, (check_rate_limit c)\<lparr>client_attempts := Suc (client_attempts c),
                                     shown := shown c @ [Error_rate_limit endpoint]\<rparr>)"
    by (auto simp: make_api_request_429)
  have c2: "(\<exists>st. server E (client_attempts c) (base_url E @ ''/'' @ endpoint) params = Response st None \<and> st < 400) \<longrightarrow>
      make_api_request E endpoint params c =
        (JNull, (check_rate_limit c)\<lparr>client_attempts := Suc (client_attempts c),
                                     shown := shown c @ [Error_exception endpoint]\<rparr>)"
    by (auto simp: make_api_request_not_json)
  from gm gs a b c1 c2 show ?thesis by blast
qed


lemma rate_limited_env_facts:
  "RAPIDAPI_KEY rate_limited_env \<noteq> None" "RAPIDAPI_KEY rate_limited_env \<noteq> Some []"
  "API_CALLS empty_world < MAX_CALLS rate_limited_env"
  "\<forall>k. \<exists>b. server rate_limited_env k url params = Response 429 b"
  by (simp_all add: rate_limited_env_def example_env_def empty_world_def)

lemma malformed_env_facts:
  "RAPIDAPI_KEY malformed_env \<noteq> None" "RAPIDAPI_KEY malformed_env \<noteq> Some []"
  "API_CALLS empty_world < MAX_CALLS malformed_env"
  "server malformed_env k url params = Response 200 None"
  by (simp_all add: malformed_env_def example_env_def empty_world_def)

theorem api_get_fatal_examples:
  "api_get (example_env\<lparr>RAPIDAPI_KEY := None\<rparr>) ''u'' JNull 5 (4 / 5) empty_world =
     (Inl RuntimeError, empty_world) \<and>
   api_get example_env ''u'' JNull 5 (4 / 5) (empty_world\<lparr>API_CALLS := 8000\<rparr>) =
     (Inl RuntimeError, empty_world\<lparr>API_CALLS := 8000\<rparr>) \<and>
   (\<exists>result w'. api_get example_env ''u'' JNull 5 (4 / 5) empty_world = (Inr result, w'))"
  using api_get_fatal_preconditions [of "example_env\<lparr>RAPIDAPI_KEY := None\<rparr>" empty_world "''u''" JNull 5 "4 / 5"]
    api_get_fatal_preconditions [of example_env "empty_world\<lparr>API_CALLS := 8000\<rparr>" "''u''" JNull 5 "4 / 5"]
    api_get_fatal_preconditions [of example_env empty_world "''u''" JNull 5 "4 / 5"]
  by (simp add: example_env_def empty_world_def)

lemma example_env_configured:
  "RAPIDAPI_KEY rate_limited_env = Some ''key''" "RAPIDAPI_HOST rate_limited_env = Some ''host''"
  "RAPIDAPI_KEY malformed_env = Some ''key''" "RAPIDAPI_HOST malformed_env = Some ''host''"
  "RAPIDAPI_KEY empty_body_env = Some ''key''" "RAPIDAPI_HOST empty_body_env = Some ''host''"
  "API_CALLS empty_world < MAX_CALLS empty_body_env"
  by (simp_all add: rate_limited_env_def malformed_env_def empty_body_env_def example_env_def
      empty_world_def)

theorem rate_limit_tag_and_retry_examples:
  "fst (get_matches rate_limited_env ''live'' new_live_page) =
     JDict [(''error'', JStr ''rate_limit''),
            (''message'', JStr ''API Rate Limit Exceeded (429). Response: Too many requests''),
            (''status_code'', JInt 429)] \<and>
   lm_requests (snd (get_matches rate_limited_env ''live'' new_live_page)) = 1 \<and>
   fst (get_matches empty_body_env ''live'' new_live_page) =
     JDict [(''error'', JStr ''empty_response''),
            (''message'', JStr ''API returned empty response''),
            (''status_code'', JInt 200)] \<and>
   py_get (fst (get_matches malformed_env ''live'' new_live_page)) ''error'' = Inr (JStr ''invalid_json'') \<and>
   fst (get_detailed_scorecard rate_limited_env (JInt 101) new_live_page) =
     JDict [(''error'', JStr ''rate_limit''),
            (''message'', JStr ''API Rate Limit Exceeded (429). Response: Too many requests'')] \<and>
   lm_requests (snd (get_detailed_scorecard rate_limited_env (JInt 101) new_live_page)) = 1 \<and>
   py_get (fst (get_detailed_scorecard empty_body_env (JInt 101) new_live_page)) ''error'' =
     Inr (JStr ''empty_response'') \<and>
   py_get (fst (get_detailed_scorecard malformed_env (JInt 101) new_live_page)) ''error'' =
     Inr (JStr ''error'') \<and>
   fst (api_get rate_limited_env ''u'' JNull 5 (4 / 5) empty_world) = Inr JNull \<and>
   http_attempts (snd (api_get rate_limited_env ''u'' JNull 5 (4 / 5) empty_world)) = 6 \<and>
   slept (snd (api_get rate_limited_env ''u'' JNull 5 (4 / 5) empty_world)) =
     [4 / 5, 8 / 5, 12 / 5, 16 / 5, 4] \<and>
   fst (api_get malformed_env ''u'' JNull 5 (4 / 5) empty_world) = Inr JNull \<and>
   http_attempts (snd (api_get malformed_env ''u'' JNull 5 (4 / 5) empty_world)) = 1 \<and>
   slept (snd (api_get malformed_env ''u'' JNull 5 (4 / 5) empty_world)) = [] \<and>
   make_api_request rate_limited_env ''matches/v1/live'' JNull new_client =
     (JNull, (check_rate_limit new_client)\<lparr>client_attempts := Suc (client_attempts new_client),
        shown := shown new_client @ [Error_rate_limit ''matches/v1/live'']\<rparr>) \<and>
   make_api_request malformed_env ''matches/v1/live'' JNull new_client =
     (JNull, (check_rate_limit new_client)\<lparr>client_attempts := Suc (client_attempts new_client),
        shown := shown new_client @ [Error_exception ''matches/v1/live'']\<rparr>)"
proof -
  have ne: "''key'' \<noteq> []" "''host'' \<noteq> []" by simp_all
  have ha: "http_attempts empty_world = 0" "slept empty_world = []"
    by (simp_all add: empty_world_def)
  have lp: "lm_requests new_live_page = 0" by (simp add: new_live_page_def)
  have up: "[1..(5::int)] = [1, 2, 3, 4, 5]" by code_simp
  have rl: "\<And>k url. requests_get rate_limited_env k url =
        Got \<lparr>r_status_code = 429, r_text = ''Too many requests'',
             r_json = Inl ''Expecting value: line 1 column 1 (char 0)'',
             r_http_error = ''429 Client Error: Too Many Requests''\<rparr>"
    by (simp add: rate_limited_env_def)
  have mf: "\<And>k url. requests_get malformed_env k url =
        Got \<lparr>r_status_code = 200, r_text = ''<html>'',
             r_json = Inl ''Expecting value: line 1 column 1 (char 0)'',
             r_http_error = []\<rparr>"
    by (simp add: malformed_env_def)
  have eb: "\<And>k url. requests_get empty_body_env k url =
        Got \<lparr>r_status_code = 200, r_text = [],
             r_json = Inl ''Expecting value: line 1 column 1 (char 0)'',
             r_http_error = []\<rparr>"
    by (simp add: empty_body_env_def)
  have sm: "\<exists>st. server malformed_env (http_attempts empty_world) ''u'' JNull = Response st None \<and> st < 400"
    using malformed_env_facts(4) [of "http_attempts empty_world" "''u''" JNull] by simp
  have cm: "\<exists>st. server malformed_env (client_attempts new_client)
              (base_url malformed_env @ ''/'' @ ''matches/v1/live'') JNull = Response st None \<and> st < 400"
    using malformed_env_facts(4)
      [of "client_attempts new_client" "base_url malformed_env @ ''/'' @ ''matches/v1/live''" JNull]
    by simp
  from rate_limited_env_facts(4)
  have cr: "\<exists>b. server rate_limited_env (client_attempts new_client)
             (base_url rate_limited_env @ ''/'' @ ''matches/v1/live'') JNull = Response 429 b"
    by blast
  from rate_limit_tag_and_retry [OF example_env_configured(1) ne(1) example_env_configured(2) ne(2)
      rate_limited_env_facts(3), of new_live_page "''live''" "\<lparr>r_status_code = 429, r_text = ''Too many requests'',
             r_json = Inl ''Expecting value: line 1 column 1 (char 0)'',
             r_http_error = ''429 Client Error: Too Many Requests''\<rparr>" "''Expecting value: line 1 column 1 (char 0)''" "JInt 101" "''u''" JNull 5 "4 / 5"
      new_client "''matches/v1/live''"]
    rl rate_limited_env_facts(4) [of "''u''" JNull] cr ha lp
  have 1: "fst (get_matches rate_limited_env ''live'' new_live_page) =
     JDict [(''error'', JStr ''rate_limit''),
            (''message'', JStr ''API Rate Limit Exceeded (429). Response: Too many requests''),
            (''status_code'', JInt 429)] \<and>
   lm_requests (snd (get_matches rate_limited_env ''live'' new_live_page)) = 1 \<and>
   fst (get_detailed_scorecard rate_limited_env (JInt 101) new_live_page) =
     JDict [(''error'', JStr ''rate_limit''),
            (''message'', JStr ''API Rate Limit Exceeded (429). Response: Too many requests'')] \<and>
   lm_requests (snd (get_detailed_scorecard rate_limited_env (JInt 101) new_live_page)) = 1 \<and>
   fst (api_get rate_limited_env ''u'' JNull 5 (4 / 5) empty_world) = Inr JNull \<and>
   http_attempts (snd (api_get rate_limited_env ''u'' JNull 5 (4 / 5) empty_world)) = 6 \<and>
   slept (snd (api_get rate_limited_env ''u'' JNull 5 (4 / 5) empty_world)) =
     [4 / 5, 8 / 5, 12 / 5, 16 / 5, 4] \<and>
   make_api_request rate_limited_env ''matches/v1/live'' JNull new_client =
     (JNull, (check_rate_limit new_client)\<lparr>client_attempts := Suc (client_attempts new_client),
        shown := shown new_client @ [Error_rate_limit ''matches/v1/live'']\<rparr>)"
    by (simp add: up)
  from rate_limit_tag_and_retry [OF example_env_configured(3) ne(1) example_env_configured(4) ne(2)
      malformed_env_facts(3), of new_live_page "''live''" "\<lparr>r_status_code = 200, r_text = ''<html>'',
             r_json = Inl ''Expecting value: line 1 column 1 (char 0)'',
             r_http_error = []\<rparr>" "''Expecting value: line 1 column 1 (char 0)''" "JInt 101" "''u''" JNull 5 "4 / 5"
      new_client "''matches/v1/live''"]
    mf sm cm ha lp
  have 2: "py_get (fst (get_matches malformed_env ''live'' new_live_page)) ''error'' = Inr (JStr ''invalid_json'') \<and>
   py_get (fst (get_detailed_scorecard malformed_env (JInt 101) new_live_page)) ''error'' =
     Inr (JStr ''error'') \<and>
   fst (api_get malformed_env ''u'' JNull 5 (4 / 5) empty_world) = Inr JNull \<and>
   http_attempts (snd (api_get malformed_env ''u'' JNull 5 (4 / 5) empty_world)) = 1 \<and>
   slept (snd (api_get malformed_env ''u'' JNull 5 (4 / 5) empty_world)) = [] \<and>
   make_api_request malformed_env ''matches/v1/live'' JNull new_client =
     (JNull, (check_rate_limit new_client)\<lparr>client_attempts := Suc (client_attempts new_client),
        shown := shown new_client @ [Error_exception ''matches/v1/live'']\<rparr>)"
    by (simp add: py_get_def)
  from rate_limit_tag_and_retry [OF example_env_configured(5) ne(1) example_env_configured(6) ne(2)
      example_env_configured(7), of new_live_page "''live''" "\<lparr>r_status_code = 200, r_text = [],
             r_json = Inl ''Expecting value: line 1 column 1 (char 0)'',
             r_http_error = []\<rparr>" "''Expecting value: line 1 column 1 (char 0)''" "JInt 101"]
    eb
  have 3: "fst (get_matches empty_body_env ''live'' new_live_page) =
     JDict [(''error'', JStr ''empty_response''),
            (''message'', JStr ''API returned empty response''),
            (''status_code'', JInt 200)] \<and>
   py_get (fst (get_detailed_scorecard empty_body_env (JInt 101) new_live_page)) ''error'' =
     Inr (JStr ''empty_response'')"
    by (simp add: py_get_def)
  from 1 2 3 show ?thesis by blast
qed

text \<open>
  The claim fails as stated for \<^verbatim>\<open>api_get\<close>: a server that always answers 429 and one
  that answers with a body that is not JSON give the same result, and the 429 is retried
  five times.
\<close>

theorem rate_limit_same_result_as_malformed:
  "fst (api_get_default rate_limited_env ''u'' JNull empty_world) =
     fst (api_get_default malformed_env ''u'' JNull empty_world) \<and>
   http_attempts (snd (api_get_default rate_limited_env ''u'' JNull empty_world)) = 6"
proof -
  have "\<forall>k. server rate_limited_env k ''u'' JNull = ConnError \<or>
        (\<exists>st b. server rate_limited_env k ''u'' JNull = Response st b \<and> 400 \<le> st \<and> st < 600)"
    by (simp add: rate_limited_env_def)
  from api_get_all_fail [OF rate_limited_env_facts(1-3) this, of 5 "4 / 5"]
  have 1: "fst (api_get rate_limited_env ''u'' JNull 5 (4 / 5) empty_world) = Inr JNull \<and>
     http_attempts (snd (api_get rate_limited_env ''u'' JNull 5 (4 / 5) empty_world)) = 6"
    by (simp add: empty_world_def)
  have "\<not> (400 \<le> (200::nat) \<and> (200::nat) < 600)" by simp
  from api_get_first_ok [OF malformed_env_facts(1-3) malformed_env_facts(4) this, of "''u''" JNull 5 "4 / 5"]
  have 2: "fst (api_get malformed_env ''u'' JNull 5 (4 / 5) empty_world) = Inr JNull"
    by simp
  from 1 2 show ?thesis by (simp add: api_get_default_def)
qed

subsection \<open>Identifiers of the upserts\<close>

lemma get_or_two_absent:
  "absent_or_zero kvs a \<Longrightarrow> absent_or_zero kvs b \<Longrightarrow>
   \<exists>i. get_or (JDict kvs) [a, b] = Inr i \<and> (i = JNull \<or> i = JInt 0)"
  by (auto simp: absent_or_zero_def py_get_def split: option.splits)

lemma odku_keys:
  "(\<And>r. dup r \<Longrightarrow> key (upd r) = key r) \<Longrightarrow>
   set (map key (on_duplicate_key_update dup upd new rows)) \<subseteq> insert (key new) (set (map key rows))"
  by (induction rows) auto

lemma team_values_nonzero: "team_values team = Inr (Some new) \<Longrightarrow> t_team_id new \<noteq> 0"
  by (auto simp: team_values_def bindE_def split: sum.splits if_splits)

lemma series_values_nonzero: "series_values E s = Inr (Some new) \<Longrightarrow> s_series_id new \<noteq> 0"
  by (auto simp: series_values_def bindE_def split: sum.splits if_splits prod.splits)

lemma player_values_id: "player_values player pid team_id enrich = Inr new \<Longrightarrow> p_player_id new = pid"
  by (auto simp: player_values_def bindE_def split: sum.splits)


lemma api_attempt_tables:
  "api_attempt E url params w = (r, w1) \<Longrightarrow>
   teams w1 = teams w \<and> players w1 = players w \<and> series w1 = series w \<and>
   matches w1 = matches w \<and> venues w1 = venues w"
  by (auto simp: api_attempt_def Let_def split: http_outcome.splits if_splits option.splits)

lemma api_get_loop_tables:
  "teams (snd (api_get_loop E url params retries backoff attempt w)) = teams w \<and>
   players (snd (api_get_loop E url params retries backoff attempt w)) = players w \<and>
   series (snd (api_get_loop E url params retries backoff attempt w)) = series w \<and>
   matches (snd (api_get_loop E url params retries backoff attempt w)) = matches w \<and>
   venues (snd (api_get_loop E url params retries backoff attempt w)) = venues w"
proof (induction E url params retries backoff attempt w rule: api_get_loop.induct)
  case (1 E url params retries backoff attempt w)
  obtain r w1 where a: "api_attempt E url params w = (r, w1)"
    by (cases "api_attempt E url params w")
  note t = api_attempt_tables [OF a]
  show ?case
  proof (cases r)
    case (Inr j)
    with a t show ?thesis
      by (simp add: api_get_loop.simps [of E url params retries backoff attempt w])
  next
    case (Inl e)
    show ?thesis
    proof (cases "attempt + 1 > retries")
      case True
      with a t Inl show ?thesis
        by (simp add: api_get_loop.simps [of E url params retries backoff attempt w])
    next
      case False
      from 1 [OF a [symmetric] Inl refl False refl]
      show ?thesis
        using a t Inl False
        by (simp add: api_get_loop.simps [of E url params retries backoff attempt w] Let_def)
    qed
  qed
qed

lemma api_get_tables:
  "api_get E url params retries backoff w = (r, w') \<Longrightarrow>
   teams w' = teams w \<and> players w' = players w \<and> series w' = series w \<and>
   matches w' = matches w \<and> venues w' = venues w"
  using api_get_loop_tables [of E url params retries backoff 0 w]
  by (cases "api_get_loop E url params retries backoff 0 w")
     (auto simp: api_get_def split: if_splits)

lemma no_zero_ids_same:
  "teams w' = teams w \<Longrightarrow> players w' = players w \<Longrightarrow> series w' = series w \<Longrightarrow>
   matches w' = matches w \<Longrightarrow> no_zero_ids w \<Longrightarrow> no_zero_ids w'"
  by (simp add: no_zero_ids_def)

lemma insert_team_no_zero:
  "t_team_id new \<noteq> 0 \<Longrightarrow> no_zero_ids w \<Longrightarrow> no_zero_ids (insert_team new w)"
  using odku_keys [of "\<lambda>r. t_team_id r = t_team_id new" t_team_id
      "\<lambda>r. r\<lparr>t_name := t_name new, t_short_name := t_short_name new, t_country := t_country new\<rparr>"
      new "teams w"]
  by (auto simp: no_zero_ids_def insert_team_def)

lemma upsert_team_no_zero: "no_zero_ids w \<Longrightarrow> no_zero_ids (snd (upsert_team team w))"
  by (auto simp: upsert_team_def insert_team_no_zero dest: team_values_nonzero
      split: sum.splits option.splits)

lemma insert_series_no_zero:
  "s_series_id new \<noteq> 0 \<Longrightarrow> no_zero_ids w \<Longrightarrow> no_zero_ids (insert_series new w)"
  using odku_keys [of "\<lambda>r. s_series_id r = s_series_id new" s_series_id
      "\<lambda>r. r\<lparr>s_name := s_name new, s_host_country := s_host_country new,
              s_match_type := s_match_type new, s_start_date := s_start_date new,
              s_end_date := s_end_date new, s_total_matches := s_total_matches new\<rparr>"
      new "series w"]
  by (auto simp: no_zero_ids_def insert_series_def)

lemma upsert_series_no_zero: "no_zero_ids w \<Longrightarrow> no_zero_ids (snd (upsert_series E s w))"
  by (auto simp: upsert_series_def insert_series_no_zero dest: series_values_nonzero
      split: sum.splits option.splits)

lemma insert_player_no_zero:
  "p_player_id new \<noteq> 0 \<Longrightarrow> no_zero_ids w \<Longrightarrow> no_zero_ids (snd (insert_player new w))"
  using odku_keys [of "\<lambda>r. p_player_id r = p_player_id new" p_player_id
      "\<lambda>r. r\<lparr>p_name := p_name new, p_role := p_role new,
              p_bat_style := p_bat_style new, p_bowl_style := p_bowl_style new,
              p_team_id := p_team_id new, p_country := p_country new\<rparr>"
      new "players w"]
  by (auto simp: no_zero_ids_def insert_player_def)

lemma extract_player_profile_no_zero:
  "extract_player_profile E pid w = (r, w1) \<Longrightarrow> no_zero_ids w \<Longrightarrow> no_zero_ids w1"
  using api_get_tables [of E _ JNull 5 "4 / 5" w r w1]
  by (auto simp: extract_player_profile_def api_get_default_def intro: no_zero_ids_same)

lemma upsert_player_no_zero:
  "no_zero_ids w \<Longrightarrow> no_zero_ids (snd (upsert_player E player team_id enrich w))"
proof -
  assume nz: "no_zero_ids w"
  show ?thesis
  proof (cases "player_id_of player")
    case (Inl e)
    with nz show ?thesis by (simp add: upsert_player_def)
  next
    case (Inr pid)
    show ?thesis
    proof (cases "pid = 0")
      case True
      with Inr nz show ?thesis by (simp add: upsert_player_def)
    next
      case False
      obtain r w1 where x: "extract_player_profile E pid w = (r, w1)"
        by (cases "extract_player_profile E pid w")
      from extract_player_profile_no_zero [OF x nz] have nz1: "no_zero_ids w1" .
      have ins: "\<And>en w2. no_zero_ids w2 \<Longrightarrow>
          no_zero_ids (snd (case player_values player pid team_id en of
                              Inl e \<Rightarrow> (Inl e, w2) | Inr new \<Rightarrow> insert_player new w2))"
        using False
        by (auto split: sum.splits dest!: player_values_id intro: insert_player_no_zero)
      show ?thesis
        using Inr False x nz nz1 ins [of w1] ins [of w]
        by (cases r) (auto simp: upsert_player_def)
    qed
  qed
qed


lemma get_or_create_venue_no_zero:
  "no_zero_ids w \<Longrightarrow> no_zero_ids (snd (get_or_create_venue name city country capacity w))"
  by (auto simp: get_or_create_venue_def no_zero_ids_def Let_def split: list.splits)

lemma mcenter_enrich_no_zero:
  "no_zero_ids w \<Longrightarrow> no_zero_ids (snd (mcenter_enrich E mid V w))"
proof -
  assume nz: "no_zero_ids w"
  obtain r w1 where x: "extract_match_info E mid w = (r, w1)"
    by (cases "extract_match_info E mid w")
  from api_get_tables [of E _ JNull 5 "4 / 5" w r w1] x
  have t: "teams w1 = teams w \<and> players w1 = players w \<and> series w1 = series w \<and>
           matches w1 = matches w"
    by (simp add: extract_match_info_def api_get_default_def)
  with nz have nz1: "no_zero_ids w1" by (simp add: no_zero_ids_def)
  then have nz2: "no_zero_ids (w1\<lparr>console := console w1 @ [Mcenter_failed mid]\<rparr>)"
    by (simp add: no_zero_ids_def)
  show ?thesis
    using x nz1 nz2 by (cases r) (auto simp: mcenter_enrich_def split: prod.splits)
qed

lemma insert_match_no_zero:
  "m_match_id new \<noteq> 0 \<Longrightarrow> no_zero_ids w \<Longrightarrow> no_zero_ids (snd (insert_match new w))"
  using odku_keys [of "\<lambda>r. m_match_id r = m_match_id new" m_match_id
      "\<lambda>r. r\<lparr>m_series_id := m_series_id new, m_team1_id := m_team1_id new,
                         m_team2_id := m_team2_id new, m_match_date := m_match_date new,
                         m_venue_id := m_venue_id new, m_winner_id := m_winner_id new,
                         m_win_margin := m_win_margin new,
                         m_victory_type := m_victory_type new,
                         m_toss_winner_id := m_toss_winner_id new,
                         m_toss_decision := m_toss_decision new,
                         m_match_format := m_match_format new,
                         m_description := m_description new\<rparr>"
      new "matches w"]
  by (auto simp: no_zero_ids_def insert_match_def)

lemma step_team_no_zero:
  "(if c then upsert_team t w0 else (Inr (), w0)) = (x, w1) \<Longrightarrow> no_zero_ids w0 \<Longrightarrow> no_zero_ids w1"
  using upsert_team_no_zero [of w0 t] by (auto split: if_splits)

lemma step_venue_no_zero:
  "get_or_create_venue name city country capacity w0 = (v, w1) \<Longrightarrow> no_zero_ids w0 \<Longrightarrow>
   no_zero_ids w1"
  using get_or_create_venue_no_zero [of w0 name city country capacity] by simp

lemma step_enrich_no_zero:
  "(if c then mcenter_enrich E mid V w0 else (V, w0)) = (V', w1) \<Longrightarrow> no_zero_ids w0 \<Longrightarrow>
   no_zero_ids w1"
  using mcenter_enrich_no_zero [of w0 E mid V] by (auto split: if_splits)

lemma upsert_match_basic_no_zero:
  "no_zero_ids w \<Longrightarrow> no_zero_ids (snd (upsert_match_basic E m series_id w))"
proof -
  assume nz: "no_zero_ids w"
  show ?thesis
  proof (cases "get_or m [''matchId'', ''id'']")
    case (Inl e)
    with nz show ?thesis by (simp add: upsert_match_basic_def)
  next
    case (Inr i)
    show ?thesis
    proof (cases "to_int i None")
      case None
      with Inr nz show ?thesis by (simp add: upsert_match_basic_def)
    next
      case (Some mid)
      show ?thesis
      proof (cases "mid = 0")
        case True
        with Inr Some nz show ?thesis by (simp add: upsert_match_basic_def)
      next
        case False
        show ?thesis
        proof (cases "match_teams m")
          case (Inl e)
          with Inr Some False nz show ?thesis by (simp add: upsert_match_basic_def)
        next
          case teams: (Inr T)
          obtain t1 t2 team1_id team2_id where T: "T = (t1, t2, team1_id, team2_id)"
            by (cases T) auto
          obtain x1 w1 where s1:
            "(if truthy_int team1_id then upsert_team t1 w else (Inr (), w)) = (x1, w1)"
            by (cases "if truthy_int team1_id then upsert_team t1 w else (Inr (), w)")
          from step_team_no_zero [OF s1 nz] have nz1: "no_zero_ids w1" .
          obtain x2 w2 where s2:
            "(if truthy_int team2_id then upsert_team t2 w1 else (Inr (), w1)) = (x2, w2)"
            by (cases "if truthy_int team2_id then upsert_team t2 w1 else (Inr (), w1)")
          from step_team_no_zero [OF s2 nz1] have nz2: "no_zero_ids w2" .
          have rest: "\<And>vn vc vco cap. no_zero_ids
            (snd (case get_or_create_venue vn vc vco cap w2 of
              (venue_id, w3) \<Rightarrow>
                (case match_light E m of
                   Inl e \<Rightarrow> (Inl e, w3)
                 | Inr V \<Rightarrow>
                     (case (if need_mcenter V then mcenter_enrich E mid V w3 else (V, w3)) of
                        (V', w4) \<Rightarrow>
                          insert_match
            \<lparr>m_match_id = mid, m_series_id = series_id, m_team1_id = team1_id,
             m_team2_id = team2_id, m_match_date = mdate V', m_venue_id = venue_id,
             m_winner_id = winner_id V', m_win_margin = coerce_margin (win_margin V'),
             m_victory_type = victory_type V', m_toss_winner_id = toss_winner_id V',
             m_toss_decision = toss_decision V', m_match_format = mformat V',
             m_description = desc V'\<rparr> w4))))"
          proof -
            fix vn vc vco cap
            obtain v w3 where s3: "get_or_create_venue vn vc vco cap w2 = (v, w3)"
              by (cases "get_or_create_venue vn vc vco cap w2")
            from step_venue_no_zero [OF s3 nz2] have nz3: "no_zero_ids w3" .
            show "?thesis vn vc vco cap"
            proof (cases "match_light E m")
              case (Inl e)
              with s3 nz3 show ?thesis by simp
            next
              case (Inr V)
              obtain V' w4 where s4:
                "(if need_mcenter V then mcenter_enrich E mid V w3 else (V, w3)) = (V', w4)"
                by (cases "if need_mcenter V then mcenter_enrich E mid V w3 else (V, w3)")
              from step_enrich_no_zero [OF s4 nz3] have nz4: "no_zero_ids w4" .
              from insert_match_no_zero [OF _ nz4] False s3 Inr s4 show ?thesis
                by simp
            qed
          qed
          show ?thesis
          proof (cases x1)
            case (Inl e)
            with Inr Some False teams T s1 nz1 show ?thesis
              by (simp add: upsert_match_basic_def)
          next
            case u1: (Inr u)
            show ?thesis
            proof (cases x2)
              case (Inl e)
              with Inr Some False teams T s1 u1 s2 nz2 show ?thesis
                by (simp add: upsert_match_basic_def)
            next
              case u2: (Inr u')
              show ?thesis
              proof (cases "match_venue m")
                case (Inl e)
                with Inr Some False teams T s1 u1 s2 u2 nz2 show ?thesis
                  by (simp add: upsert_match_basic_def)
              next
                case ven: (Inr A)
                obtain vn vc vco cap where A: "A = (vn, vc, vco, cap)"
                  by (cases A) auto
                from rest [of vn vc vco cap] Inr Some False teams T s1 u1 s2 u2 ven A
                show ?thesis
                  by (simp add: upsert_match_basic_def)
              qed
            qed
          qed
        qed
      qed
    qed
  qed
qed


lemma upsert_team_absent:
  "absent_or_zero kvs ''teamId'' \<Longrightarrow> absent_or_zero kvs ''id'' \<Longrightarrow>
   upsert_team (JDict kvs) w = (Inr (), w)"
  using get_or_two_absent [of kvs "''teamId''" "''id''"]
  by (auto simp: upsert_team_def team_values_def bindE_def py_or_def)

lemma upsert_player_absent:
  "absent_or_zero kvs ''id'' \<Longrightarrow> absent_or_zero kvs ''playerId'' \<Longrightarrow>
   upsert_player E (JDict kvs) team_id enrich w = (Inr (), w)"
  using get_or_two_absent [of kvs "''id''" "''playerId''"]
  by (auto simp: upsert_player_def player_id_of_def bindE_def py_or_def)

lemma upsert_series_absent:
  "absent_or_zero kvs ''seriesId'' \<Longrightarrow> absent_or_zero kvs ''id'' \<Longrightarrow>
   upsert_series E (JDict kvs) w = (Inr (), w)"
  using get_or_two_absent [of kvs "''seriesId''" "''id''"]
  by (auto simp: upsert_series_def series_values_def bindE_def py_or_def)

lemma upsert_match_basic_absent:
  "absent_or_zero kvs ''matchId'' \<Longrightarrow> absent_or_zero kvs ''id'' \<Longrightarrow>
   upsert_match_basic E (JDict kvs) series_id w = (Inr (), w)"
  using get_or_two_absent [of kvs "''matchId''" "''id''"]
  by (auto simp: upsert_match_basic_def to_int_def)

text \<open>
  C10. When the identifier of a team, player, series or match payload is absent, null or 0
  under both of its key names, the upsert returns normally with the whole state unchanged:
  no row is written, nothing is printed, no profile is fetched, and the match upsert writes
  neither teams nor a venue. And whatever the payload, an upsert never puts a row with
  identifier 0 into the teams, players, series or matches table.
\<close>

theorem upserts_skip_zero_identifier:
  "(absent_or_zero kvs ''teamId'' \<and> absent_or_zero kvs ''id'' \<longrightarrow>
      upsert_team (JDict kvs) w = (Inr (), w)) \<and>
   (absent_or_zero kvs ''id'' \<and> absent_or_zero kvs ''playerId'' \<longrightarrow>
      upsert_player E (JDict kvs) team_id enrich w = (Inr (), w)) \<and>
   (absent_or_zero kvs ''seriesId'' \<and> absent_or_zero kvs ''id'' \<longrightarrow>
      upsert_series E (JDict kvs) w = (Inr (), w)) \<and>
   (absent_or_zero kvs ''matchId'' \<and> absent_or_zero kvs ''id'' \<longrightarrow>
      upsert_match_basic E (JDict kvs) series_id w = (Inr (), w)) \<and>
   (no_zero_ids w \<longrightarrow>
      no_zero_ids (snd (upsert_team team w)) \<and>
      no_zero_ids (snd (upsert_player E player team_id enrich w)) \<and>
      no_zero_ids (snd (upsert_series E s w)) \<and>
      no_zero_ids (snd (upsert_match_basic E m series_id w)))"
  using upsert_team_absent [of kvs w] upsert_player_absent [of kvs E team_id enrich w]
    upsert_series_absent [of kvs E w] upsert_match_basic_absent [of kvs E series_id w]
    upsert_team_no_zero [of w team] upsert_player_no_zero [of w E player team_id enrich]
    upsert_series_no_zero [of w E s] upsert_match_basic_no_zero [of w E m series_id]
  by blast

theorem upserts_skip_zero_identifier_examples:
  "upsert_team (JDict [(''teamName'', JStr ''India''), (''id'', JInt 0)]) empty_world =
     (Inr (), empty_world) \<and>
   upsert_player example_env (JDict [(''teamName'', JStr ''India''), (''id'', JInt 0)]) 2 JNull
     empty_world = (Inr (), empty_world) \<and>
   upsert_series example_env (JDict [(''teamName'', JStr ''India''), (''id'', JInt 0)])
     empty_world = (Inr (), empty_world) \<and>
   upsert_match_basic example_env (JDict [(''teamName'', JStr ''India''), (''id'', JInt 0)]) None
     empty_world = (Inr (), empty_world) \<and>
   no_zero_ids (snd (upsert_team (JDict [(''teamId'', JStr ''0''), (''id'', JInt 7)]) empty_world))"
proof -
  have a: "absent_or_zero [(''teamName'', JStr ''India''), (''id'', JInt 0)] ''teamId''"
    "absent_or_zero [(''teamName'', JStr ''India''), (''id'', JInt 0)] ''id''"
    "absent_or_zero [(''teamName'', JStr ''India''), (''id'', JInt 0)] ''playerId''"
    "absent_or_zero [(''teamName'', JStr ''India''), (''id'', JInt 0)] ''seriesId''"
    "absent_or_zero [(''teamName'', JStr ''India''), (''id'', JInt 0)] ''matchId''"
    by (simp_all add: absent_or_zero_def)
  have z: "no_zero_ids empty_world"
    by (simp add: no_zero_ids_def empty_world_def)
  from upserts_skip_zero_identifier [of "[(''teamName'', JStr ''India''), (''id'', JInt 0)]"
      empty_world example_env 2 JNull None "JDict [(''teamId'', JStr ''0''), (''id'', JInt 7)]"] a z
  show ?thesis by blast
qed

subsection \<open>Venue capacity\<close>

lemma filter_map_same:
  "(\<And>r. P (f r) = P r) \<Longrightarrow> filter P (map f xs) = map f (filter P xs)"
  by (induction xs) auto

text \<open>
  What \<^verbatim>\<open>get_or_create_venue\<close> does to a venue that is stored already: no row is added,
  and the capacity becomes the greater of the stored and the new one, each counted as 0
  when it is null. So a stored capacity that is not null is kept when the new one is
  smaller, and when the new one is null unless the stored one is negative; a greater new
  capacity replaces it.
\<close>

lemma get_or_create_venue_stored:
  assumes "truthy name" and "stored_capacity name city country w = Some old"
  shows "stored_capacity name city country (snd (get_or_create_venue name city country capacity w)) =
           Some (Some (max (case old of None \<Rightarrow> 0 | Some c \<Rightarrow> c)
                           (case safe_capacity capacity of None \<Rightarrow> 0 | Some c \<Rightarrow> c)))"
    and "length (venues (snd (get_or_create_venue name city country capacity w))) = length (venues w)"
proof -
  let ?P = "\<lambda>r. v_name r = name \<and> coalesce (v_city r) = coalesce city \<and>
                  coalesce (v_country r) = coalesce country"
  from assms(2) obtain row rest where f: "filter ?P (venues w) = row # rest" and o: "old = v_capacity row"
    by (auto simp: stored_capacity_def split: list.splits)
  let ?f = "\<lambda>r. if v_venue_id r = v_venue_id row
                  then r\<lparr>v_capacity :=
                         Some (max (case v_capacity r of None \<Rightarrow> 0 | Some c \<Rightarrow> c)
                                   (case safe_capacity capacity of None \<Rightarrow> 0 | Some c \<Rightarrow> c))\<rparr>
                  else r"
  have g: "get_or_create_venue name city country capacity w =
             (Some (v_venue_id row), w\<lparr>venues := map ?f (venues w)\<rparr>)"
    using assms(1) f by (simp add: get_or_create_venue_def Let_def)
  have "filter ?P (map ?f (venues w)) = map ?f (filter ?P (venues w))"
    by (rule filter_map_same) simp
  then have "filter ?P (map ?f (venues w)) = ?f row # map ?f rest"
    using f by simp
  then show "stored_capacity name city country (snd (get_or_create_venue name city country capacity w)) =
           Some (Some (max (case old of None \<Rightarrow> 0 | Some c \<Rightarrow> c)
                           (case safe_capacity capacity of None \<Rightarrow> 0 | Some c \<Rightarrow> c)))"
    using g o by (simp add: stored_capacity_def)
  show "length (venues (snd (get_or_create_venue name city country capacity w))) = length (venues w)"
    using g by simp
qed

lemma eden_gardens_new:
  "eden_gardens_capacity (eden_gardens capacity empty_world) = Some (safe_capacity capacity)"
  by (simp add: eden_gardens_capacity_def eden_gardens_def stored_capacity_def
      get_or_create_venue_def empty_world_def Let_def coalesce_def)

lemma eden_gardens_again:
  "eden_gardens_capacity w = Some old \<Longrightarrow>
   eden_gardens_capacity (eden_gardens capacity w) =
     Some (Some (max (case old of None \<Rightarrow> 0 | Some c \<Rightarrow> c)
                     (case safe_capacity capacity of None \<Rightarrow> 0 | Some c \<Rightarrow> c)))"
  using get_or_create_venue_stored(1) [of "JStr ''Eden Gardens''" "JStr ''Kolkata''" "JStr ''India''" w old capacity]
  by (simp add: eden_gardens_capacity_def eden_gardens_def)

lemma safe_capacity_examples:
  "safe_capacity (JStr ''50,000'') = Some 50000"
  "safe_capacity (JStr ''40000'') = Some 40000"
  "safe_capacity (JStr ''60000'') = Some 60000"
  "safe_capacity (JStr ''N/A'') = None"
  "safe_capacity JNull = None"
  by code_simp+

lemma venue_capacity_examples:
  "eden_gardens_capacity (eden_gardens (JStr ''50,000'') empty_world) = Some (Some 50000) \<and>
   eden_gardens_capacity (eden_gardens (JStr ''40000'') (eden_gardens (JStr ''50,000'') empty_world)) =
     Some (Some 50000) \<and>
   eden_gardens_capacity (eden_gardens JNull (eden_gardens (JStr ''50,000'') empty_world)) =
     Some (Some 50000) \<and>
   eden_gardens_capacity
     (eden_gardens (JStr ''60000'')
        (eden_gardens (JStr ''40000'') (eden_gardens (JStr ''50,000'') empty_world))) =
     Some (Some 60000)"
  by (simp add: eden_gardens_new eden_gardens_again safe_capacity_examples)

text \<open>
  C2. The comment above the \<^verbatim>\<open>UPDATE\<close> says "update only if new capacity is higher",
  and a venue of unknown capacity is stored with \<^verbatim>\<open>NULL\<close>. Ingesting that venue again,
  still without a capacity, does not leave the stored capacity as it was: the
  \<^verbatim>\<open>NULL\<close> becomes 0.
\<close>

theorem venue_null_capacity_becomes_zero:
  "eden_gardens_capacity (eden_gardens JNull empty_world) = Some None \<and>
   eden_gardens_capacity (eden_gardens JNull (eden_gardens JNull empty_world)) = Some (Some 0)"
  by (simp add: eden_gardens_new eden_gardens_again safe_capacity_examples)

subsection \<open>Batting rows\<close>







lemma batting_entry_values:
  "batting_values E 100 1 (Some 2) batting_entry None w =
     Inr (Some \<lparr>bat_id = batting_auto w, bat_match_id = 100, bat_player_id = 7,
                bat_team_id = Some 2, bat_runs = 45, bat_balls = 30, bat_fours = 0,
                bat_sixes = 0, bat_strike_rate = Some (Finite 150), bat_innings_no = 1,
                bat_batting_pos = None, bat_is_out = None\<rparr>)"
  by (simp add: batting_values_def batting_entry_def bindE_def py_get_def py_or_def
      safe_int_def safe_int_none_def safe_float_def truthy_int_def is_out_of_def
      py_round2_def round_half_even_def Let_def)



text \<open>
  C1. The statements for \<^verbatim>\<open>batting_stats\<close>, \<^verbatim>\<open>bowling_stats\<close> and
  \<^verbatim>\<open>fielding_stats\<close> are written as upserts (\<^verbatim>\<open>ON DUPLICATE KEY UPDATE\<close>), but the only
  key \<^verbatim>\<open>init_schema\<close> gives these tables is the \<^verbatim>\<open>AUTO_INCREMENT\<close> column \<^verbatim>\<open>id\<close>.
  Ingesting the same batting entry a second time therefore adds a second row for the same
  match, player and innings where ingesting it once gives one.
\<close>

theorem batting_rows_duplicated:
  "batting_stats (snd (insert_batting_score example_env 100 1 (Some 2) batting_entry None
                        one_match_world)) =
     [\<lparr>bat_id = 1, bat_match_id = 100, bat_player_id = 7, bat_team_id = Some 2,
       bat_runs = 45, bat_balls = 30, bat_fours = 0, bat_sixes = 0,
       bat_strike_rate = Some (Finite 150), bat_innings_no = 1,
       bat_batting_pos = None, bat_is_out = None\<rparr>] \<and>
   batting_stats (snd (insert_batting_score example_env 100 1 (Some 2) batting_entry None
                   (snd (insert_batting_score example_env 100 1 (Some 2) batting_entry None
                          one_match_world)))) =
     [\<lparr>bat_id = 1, bat_match_id = 100, bat_player_id = 7, bat_team_id = Some 2,
       bat_runs = 45, bat_balls = 30, bat_fours = 0, bat_sixes = 0,
       bat_strike_rate = Some (Finite 150), bat_innings_no = 1,
       bat_batting_pos = None, bat_is_out = None\<rparr>,
      \<lparr>bat_id = 2, bat_match_id = 100, bat_player_id = 7, bat_team_id = Some 2,
       bat_runs = 45, bat_balls = 30, bat_fours = 0, bat_sixes = 0,
       bat_strike_rate = Some (Finite 150), bat_innings_no = 1,
       bat_batting_pos = None, bat_is_out = None\<rparr>]"
  by (simp add: insert_batting_score_def batting_entry_values insert_batting_def
      one_match_world_def empty_world_def)

subsection \<open>Upserting a match again\<close>

lemma odku_find:
  "dup new \<Longrightarrow> (\<And>r. dup r \<Longrightarrow> upd r = new) \<Longrightarrow>
   find dup (on_duplicate_key_update dup upd new rs) = Some new"
  by (induction rs) auto

lemma insert_match_find:
  "insert_match new w = (Inr (), w') \<Longrightarrow> stored_match (m_match_id new) w' = Some new"
proof -
  assume a: "insert_match new w = (Inr (), w')"
  have u: "\<And>r. m_match_id r = m_match_id new \<Longrightarrow>
         r\<lparr>m_series_id := m_series_id new, m_team1_id := m_team1_id new,
           m_team2_id := m_team2_id new, m_match_date := m_match_date new,
           m_venue_id := m_venue_id new, m_winner_id := m_winner_id new,
           m_win_margin := m_win_margin new,
           m_victory_type := m_victory_type new,
           m_toss_winner_id := m_toss_winner_id new,
           m_toss_decision := m_toss_decision new,
           m_match_format := m_match_format new,
           m_description := m_description new\<rparr> = new"
    by simp
  from a have "matches w' = on_duplicate_key_update (\<lambda>r. m_match_id r = m_match_id new)
                 (\<lambda>r. r\<lparr>m_series_id := m_series_id new, m_team1_id := m_team1_id new,
                         m_team2_id := m_team2_id new, m_match_date := m_match_date new,
                         m_venue_id := m_venue_id new, m_winner_id := m_winner_id new,
                         m_win_margin := m_win_margin new,
                         m_victory_type := m_victory_type new,
                         m_toss_winner_id := m_toss_winner_id new,
                         m_toss_decision := m_toss_decision new,
                         m_match_format := m_match_format new,
                         m_description := m_description new\<rparr>)
                 new (matches w)"
    by (auto simp: insert_match_def split: if_splits)
  then show ?thesis
    using odku_find [of "\<lambda>r. m_match_id r = m_match_id new" new _ "matches w", OF refl u]
    by (simp add: stored_match_def)
qed

lemma run_block_keeps:
  "(\<And>stmt V V'. stmt \<in> set stmts \<Longrightarrow> stmt V = Inr V' \<Longrightarrow> f V' = f V) \<Longrightarrow>
   f (fst (run_block stmts V)) = f V"
proof (induction stmts arbitrary: V)
  case Nil
  then show ?case by simp
next
  case (Cons stmt stmts)
  show ?case
  proof (cases "stmt V")
    case (Inl e)
    then show ?thesis by simp
  next
    case (Inr V')
    from Cons.prems [of stmt V V'] Inr have 1: "f V' = f V" by simp
    from Cons.IH [of V'] Cons.prems have 2: "f (fst (run_block stmts V')) = f V'"
      by (metis list.set_intros(2))
    from 1 2 Inr show ?thesis by simp
  qed
qed

lemma mcenter_enrich_mdate: "mdate (fst (mcenter_enrich E mid V w)) = mdate V"
proof -
  have k: "\<And>mc0. mdate (fst (run_block [set_hdr (py_or mc0 (JDict [])), set_winner_id, set_toss_block,
                           set_toss_winner_id, set_toss_decision, set_res, set_win_margin,
                           set_victory_type] V)) = mdate V"
    by (rule run_block_keeps)
       (auto simp: set_hdr_def set_winner_id_def set_toss_block_def set_toss_winner_id_def
          set_toss_decision_def set_res_def set_win_margin_def set_victory_type_def bindE_def
          split: sum.splits if_splits)
  show ?thesis
  proof (cases "extract_match_info E mid w")
    case (Pair r w1)
    show ?thesis
    proof (cases r)
      case (Inl e)
      with Pair show ?thesis by (simp add: mcenter_enrich_def)
    next
      case (Inr mc0)
      obtain V' raised where rb: "run_block [set_hdr (py_or mc0 (JDict [])), set_winner_id, set_toss_block,
                           set_toss_winner_id, set_toss_decision, set_res, set_win_margin,
                           set_victory_type] V = (V', raised)"
        by (cases "run_block [set_hdr (py_or mc0 (JDict [])), set_winner_id, set_toss_block,
                           set_toss_winner_id, set_toss_decision, set_res, set_win_margin,
                           set_victory_type] V")
      from k [of mc0] rb have "mdate V' = mdate V" by simp
      with Pair Inr rb show ?thesis
        by (simp add: mcenter_enrich_def del: run_block.simps)
    qed
  qed
qed

lemma bindE_Inr:
  "bindE x f = Inr V \<Longrightarrow> (\<And>a. x = Inr a \<Longrightarrow> f a = Inr V \<Longrightarrow> P) \<Longrightarrow> P"
  by (cases x) (auto simp: bindE_def)

lemma match_light_mdate:
  "match_light E m = Inr V \<Longrightarrow>
   \<exists>d. get_or m [''matchDate'', ''startDate'', ''startTime''] = Inr d \<and> mdate V = to_date E d"
  unfolding match_light_def Let_def
  by (elim bindE_Inr) auto


lemma upsert_match_basic_success:
  assumes "upsert_match_basic E m series_id w = (Inr (), w')"
    and "get_or m [''matchId'', ''id''] = Inr i" "to_int i None = Some mid" "mid \<noteq> 0"
  shows "\<exists>team1_id team2_id venue_id V V' w3 w4.
           match_light E m = Inr V \<and>
           (if need_mcenter V then mcenter_enrich E mid V w3 else (V, w3)) = (V', w4) \<and>
           insert_match
            \<lparr>m_match_id = mid, m_series_id = series_id, m_team1_id = team1_id,
             m_team2_id = team2_id, m_match_date = mdate V', m_venue_id = venue_id,
             m_winner_id = winner_id V', m_win_margin = coerce_margin (win_margin V'),
             m_victory_type = victory_type V', m_toss_winner_id = toss_winner_id V',
             m_toss_decision = toss_decision V', m_match_format = mformat V',
             m_description = desc V'\<rparr> w4 = (Inr (), w')"
  using assms unfolding upsert_match_basic_def
  by (simp split: sum.splits prod.splits if_splits) blast+


lemma short_short: "short (short v n) n = short v n"
  by (simp add: short_def)

lemma match_light_victory:
  "match_light E m = Inr V \<Longrightarrow> short (victory_type V) 50 = victory_type V"
  unfolding match_light_def Let_def
  by (elim bindE_Inr) (auto simp: short_short)

lemma run_block_inv:
  "P V \<Longrightarrow> (\<And>stmt V V'. stmt \<in> set stmts \<Longrightarrow> P V \<Longrightarrow> stmt V = Inr V' \<Longrightarrow> P V') \<Longrightarrow>
   P (fst (run_block stmts V))"
proof (induction stmts arbitrary: V)
  case Nil
  then show ?case by simp
next
  case (Cons stmt stmts)
  show ?case
  proof (cases "stmt V")
    case (Inl e)
    with Cons.prems(1) show ?thesis by simp
  next
    case (Inr V')
    from Cons.prems(2) [of stmt V V'] Cons.prems(1) Inr have 1: "P V'" by simp
    from Cons.IH [of V', OF 1] Cons.prems(2) have "P (fst (run_block stmts V'))"
      by (metis list.set_intros(2))
    with Inr show ?thesis by simp
  qed
qed

lemma mcenter_enrich_victory:
  assumes "truthy (victory_type V)" "short (victory_type V) 50 = victory_type V"
  shows "victory_type (fst (mcenter_enrich E mid V w)) = victory_type V"
proof -
  have k: "\<And>mc0. victory_type (fst (run_block [set_hdr (py_or mc0 (JDict [])), set_winner_id, set_toss_block,
                           set_toss_winner_id, set_toss_decision, set_res, set_win_margin,
                           set_victory_type] V)) = victory_type V"
    by (rule run_block_inv [where P = "\<lambda>U. victory_type U = victory_type V"])
       (use assms in \<open>auto simp: set_hdr_def set_winner_id_def set_toss_block_def set_toss_winner_id_def
          set_toss_decision_def set_res_def set_win_margin_def set_victory_type_def bindE_def
          or_else_def split: sum.splits if_splits\<close>)
  show ?thesis
  proof (cases "extract_match_info E mid w")
    case (Pair r w1)
    show ?thesis
    proof (cases r)
      case (Inl e)
      with Pair show ?thesis by (simp add: mcenter_enrich_def)
    next
      case (Inr mc0)
      obtain V' raised where rb: "run_block [set_hdr (py_or mc0 (JDict [])), set_winner_id, set_toss_block,
                           set_toss_winner_id, set_toss_decision, set_res, set_win_margin,
                           set_victory_type] V = (V', raised)"
        by (cases "run_block [set_hdr (py_or mc0 (JDict [])), set_winner_id, set_toss_block,
                           set_toss_winner_id, set_toss_decision, set_res, set_win_margin,
                           set_victory_type] V")
      from k [of mc0] rb have "victory_type V' = victory_type V" by simp
      with Pair Inr rb show ?thesis
        by (simp add: mcenter_enrich_def del: run_block.simps)
    qed
  qed
qed

text \<open>
  C6, as the code has it. After a match payload with a non-zero identifier has been
  upserted, the row stored under that identifier holds what was computed from the new
  payload in every column, whatever was stored before: the series is the one passed, the
  victory type is the one of the payload when it has one, and the match date is the
  normalised date of the payload, hence null when the payload has no date. A column that
  the payload does not supply again is not kept.
\<close>

theorem match_upsert_overwrites:
  assumes "upsert_match_basic E m series_id w = (Inr (), w')"
    and "get_or m [''matchId'', ''id''] = Inr i" "to_int i None = Some mid" "mid \<noteq> 0"
  shows "\<exists>row d V. stored_match mid w' = Some row \<and>
           m_match_id row = mid \<and>
           m_series_id row = series_id \<and>
           get_or m [''matchDate'', ''startDate'', ''startTime''] = Inr d \<and>
           m_match_date row = to_date E d \<and>
           match_light E m = Inr V \<and>
           (truthy (victory_type V) \<longrightarrow> m_victory_type row = victory_type V) \<and>
           (\<not> need_mcenter V \<longrightarrow>
              m_winner_id row = winner_id V \<and> m_win_margin row = coerce_margin (win_margin V) \<and>
              m_toss_winner_id row = toss_winner_id V \<and> m_toss_decision row = toss_decision V \<and>
              m_match_format row = mformat V \<and> m_description row = desc V)"
proof -
  from upsert_match_basic_success [OF assms]
  obtain team1_id team2_id venue_id V V' w3 w4 where
    ml: "match_light E m = Inr V" and
    en: "(if need_mcenter V then mcenter_enrich E mid V w3 else (V, w3)) = (V', w4)" and
    ins: "insert_match
            \<lparr>m_match_id = mid, m_series_id = series_id, m_team1_id = team1_id,
             m_team2_id = team2_id, m_match_date = mdate V', m_venue_id = venue_id,
             m_winner_id = winner_id V', m_win_margin = coerce_margin (win_margin V'),
             m_victory_type = victory_type V', m_toss_winner_id = toss_winner_id V',
             m_toss_decision = toss_decision V', m_match_format = mformat V',
             m_description = desc V'\<rparr> w4 = (Inr (), w')"
    by blast
  from match_light_mdate [OF ml] obtain d where
    d: "get_or m [''matchDate'', ''startDate'', ''startTime''] = Inr d" and md: "mdate V = to_date E d"
    by blast
  from en have V': "V' = (if need_mcenter V then fst (mcenter_enrich E mid V w3) else V)"
    by (auto split: if_splits)
  have date: "mdate V' = to_date E d"
    using V' md mcenter_enrich_mdate [of E mid V w3] by simp
  have vic: "truthy (victory_type V) \<longrightarrow> victory_type V' = victory_type V"
    using V' mcenter_enrich_victory [OF _ match_light_victory [OF ml], of E mid w3] by simp
  have same: "\<not> need_mcenter V \<longrightarrow> V' = V"
    using V' by simp
  from insert_match_find [OF ins]
  have st: "stored_match mid w' = Some
            \<lparr>m_match_id = mid, m_series_id = series_id, m_team1_id = team1_id,
             m_team2_id = team2_id, m_match_date = mdate V', m_venue_id = venue_id,
             m_winner_id = winner_id V', m_win_margin = coerce_margin (win_margin V'),
             m_victory_type = victory_type V', m_toss_winner_id = toss_winner_id V',
             m_toss_decision = toss_decision V', m_match_format = mformat V',
             m_description = desc V'\<rparr>"
    by simp
  show ?thesis
    using st d date ml vic same by auto
qed


lemma to_date_examples:
  "to_date E JNull = None"
  "to_date E (JStr ''2024-02-01'') = Some ''2024-02-01''"
  by (simp_all add: to_date_def to_date_try_def)

lemma match_payload_undated:
  "upsert_match_basic example_env (match_payload []) None one_match_world =
     (Inr (), one_match_world
        \<lparr>teams := [\<lparr>t_team_id = 2, t_name = JStr ''India'', t_short_name = JNull,
                     t_country = JStr ''India''\<rparr>,
                   \<lparr>t_team_id = 3, t_name = JStr ''Australia'', t_short_name = JNull,
                     t_country = JStr ''Australia''\<rparr>],
         matches := [\<lparr>m_match_id = 100, m_series_id = None, m_team1_id = Some 2,
                      m_team2_id = Some 3, m_match_date = None, m_venue_id = None,
                      m_winner_id = Some 2, m_win_margin = JInt 5,
                      m_victory_type = JStr ''wickets'',
                      m_toss_winner_id = Some 2, m_toss_decision = JStr ''bat'',
                      m_match_format = JNull, m_description = JNull\<rparr>]\<rparr>)"
  by (simp add: upsert_match_basic_def match_payload_def one_match_world_def empty_world_def
      match_teams_def match_venue_def match_light_def need_mcenter_def coerce_margin_def
      insert_match_def references_def upsert_team_def team_values_def insert_team_def
      get_or_create_venue_def bindE_def py_get_def py_or_def or_else_def to_int_def
      truthy_int_def short_def Let_def to_date_examples)

lemma match_payload_dated:
  "upsert_match_basic example_env (match_payload [(''matchDate'', JStr ''2024-02-01'')]) None one_match_world =
     (Inr (), one_match_world
        \<lparr>teams := [\<lparr>t_team_id = 2, t_name = JStr ''India'', t_short_name = JNull,
                     t_country = JStr ''India''\<rparr>,
                   \<lparr>t_team_id = 3, t_name = JStr ''Australia'', t_short_name = JNull,
                     t_country = JStr ''Australia''\<rparr>],
         matches := [\<lparr>m_match_id = 100, m_series_id = None, m_team1_id = Some 2,
                      m_team2_id = Some 3, m_match_date = Some ''2024-02-01'', m_venue_id = None,
                      m_winner_id = Some 2, m_win_margin = JInt 5,
                      m_victory_type = JStr ''wickets'',
                      m_toss_winner_id = Some 2, m_toss_decision = JStr ''bat'',
                      m_match_format = JNull, m_description = JNull\<rparr>]\<rparr>)"
  by (simp add: upsert_match_basic_def match_payload_def one_match_world_def empty_world_def
      match_teams_def match_venue_def match_light_def need_mcenter_def coerce_margin_def
      insert_match_def references_def upsert_team_def team_values_def insert_team_def
      get_or_create_venue_def bindE_def py_get_def py_or_def or_else_def to_int_def
      truthy_int_def short_def Let_def to_date_examples)

lemma match_light_dated:
  "match_light example_env (match_payload [(''matchDate'', JStr ''2024-02-01'')]) =
     Inr \<lparr>winner_id = Some 2, toss_winner_id = Some 2, toss_decision = JStr ''bat'',
          win_margin = JInt 5, victory_type = JStr ''wickets'',
          mdate = Some ''2024-02-01'', mformat = JNull, desc = JNull,
          hdr = JNull, toss_block = JNull, res = JNull\<rparr>"
  by (simp add: match_payload_def match_light_def bindE_def py_get_def py_or_def or_else_def
      to_int_def truthy_int_def short_def Let_def to_date_examples)

theorem match_upsert_overwrites_example:
  "\<exists>row. stored_match 100
           (snd (upsert_match_basic example_env
                   (match_payload [(''matchDate'', JStr ''2024-02-01'')]) None one_match_world)) =
           Some row \<and>
         m_match_id row = 100 \<and> m_series_id row = None \<and>
         m_match_date row = Some ''2024-02-01'' \<and> m_victory_type row = JStr ''wickets'' \<and>
         m_winner_id row = Some 2"
proof -
  have i: "get_or (match_payload [(''matchDate'', JStr ''2024-02-01'')]) [''matchId'', ''id''] =
             Inr (JInt 100)"
    by (simp add: match_payload_def py_get_def)
  have t: "to_int (JInt 100) None = Some 100" "(100::int) \<noteq> 0"
    by (simp_all add: to_int_def)
  have d: "get_or (match_payload [(''matchDate'', JStr ''2024-02-01'')])
             [''matchDate'', ''startDate'', ''startTime''] = Inr (JStr ''2024-02-01'')"
    by (simp add: match_payload_def py_get_def)
  have s: "upsert_match_basic example_env
             (match_payload [(''matchDate'', JStr ''2024-02-01'')]) None one_match_world =
           (Inr (), snd (upsert_match_basic example_env
             (match_payload [(''matchDate'', JStr ''2024-02-01'')]) None one_match_world))"
    by (simp add: match_payload_dated)
  from match_upsert_overwrites [OF s i t]
  obtain row d' V where
    r: "stored_match 100
           (snd (upsert_match_basic example_env
                   (match_payload [(''matchDate'', JStr ''2024-02-01'')]) None one_match_world)) =
           Some row" "m_match_id row = 100" "m_series_id row = None" and
    g: "get_or (match_payload [(''matchDate'', JStr ''2024-02-01'')])
             [''matchDate'', ''startDate'', ''startTime''] = Inr d'" and
    md: "m_match_date row = to_date example_env d'" and
    ml: "match_light example_env (match_payload [(''matchDate'', JStr ''2024-02-01'')]) = Inr V" and
    vt: "truthy (victory_type V) \<longrightarrow> m_victory_type row = victory_type V" and
    nm: "\<not> need_mcenter V \<longrightarrow> m_winner_id row = winner_id V"
    by blast
  from g d have "d' = JStr ''2024-02-01''" by simp
  with md have 1: "m_match_date row = Some ''2024-02-01''"
    by (simp add: to_date_examples)
  from ml match_light_dated have V: "V = \<lparr>winner_id = Some 2, toss_winner_id = Some 2, toss_decision = JStr ''bat'',
          win_margin = JInt 5, victory_type = JStr ''wickets'',
          mdate = Some ''2024-02-01'', mformat = JNull, desc = JNull,
          hdr = JNull, toss_block = JNull, res = JNull\<rparr>"
    by simp
  from vt V have 2: "m_victory_type row = JStr ''wickets''" by simp
  from nm V have 3: "m_winner_id row = Some 2" by (simp add: need_mcenter_def)
  from r 1 2 3 show ?thesis by blast
qed

text \<open>
  The claim fails as stated: match 100 is stored with its date, the payload that is
  ingested again supplies the victory type and no date, and afterwards the stored date is
  null.
\<close>

theorem match_date_not_kept:
  "map_option m_match_date (stored_match 100 one_match_world) = Some (Some ''2024-01-15'') \<and>
   fst (upsert_match_basic example_env (match_payload []) None one_match_world) = Inr () \<and>
   map_option m_match_date
     (stored_match 100
        (snd (upsert_match_basic example_env (match_payload []) None one_match_world))) =
     Some None \<and>
   map_option m_victory_type
     (stored_match 100
        (snd (upsert_match_basic example_env (match_payload []) None one_match_world))) =
     Some (JStr ''wickets'')"
  by (simp add: match_payload_undated stored_match_def)
     (simp add: one_match_world_def empty_world_def)

end
